theory Spec2Isabelle
  imports Complex_Main
begin

section \<open>JavaScript values\<close>

text \<open>
  Prices, slopes, amounts and slippage fractions are JavaScript numbers; they are modelled
  as reals with exact arithmetic, except where the rounding of a product decides which
  bucket is chosen (\<open>getExecutionPrice\<close>): there the product is rounded to binary64 as
  the machine rounds it. Basis points, clock readings and timestamps are integers.
  A property that may be \<open>undefined\<close> or \<open>null\<close> is an \<open>option\<close>. Only the timestamp can
  become \<open>NaN\<close> in the code below (through \<open>parseInt\<close>), so it has a type of its own.
\<close>

datatype jsnum = Num int | NaN

datatype error = TypeError | Error string

datatype side = BUY | SELL

text \<open>Truthiness: \<open>undefined\<close>, \<open>null\<close>, \<open>0\<close>, \<open>NaN\<close> and the empty string are falsy.\<close>

definition truthy :: "'a::zero option \<Rightarrow> bool" where
  "truthy v = (case v of None \<Rightarrow> False | Some x \<Rightarrow> x \<noteq> 0)"

definition truthy_str :: "string option \<Rightarrow> bool" where
  "truthy_str v = (case v of None \<Rightarrow> False | Some s \<Rightarrow> s \<noteq> [])"

definition truthy_jsnum :: "jsnum \<Rightarrow> bool" where
  "truthy_jsnum t = (case t of NaN \<Rightarrow> False | Num n \<Rightarrow> n \<noteq> 0)"

text \<open>\<open>a || b\<close> on optional numbers and on optional strings.\<close>

definition js_or :: "'a::zero option \<Rightarrow> 'a option \<Rightarrow> 'a option" where
  "js_or a b = (if truthy a then a else b)"

definition js_or_str :: "string option \<Rightarrow> string option \<Rightarrow> string option" where
  "js_or_str a b = (if truthy_str a then a else b)"

text \<open>\<open>String.prototype.toLowerCase\<close> on ASCII text.\<close>

definition lower_char :: "char \<Rightarrow> char" where
  "lower_char c =
     (let n = (of_char c :: nat) in if 65 \<le> n \<and> n \<le> 90 then char_of (n + 32) else c)"

definition toLowerCase :: "string \<Rightarrow> string" where
  "toLowerCase s = map lower_char s"

text \<open>
  \<open>parseInt(s)\<close> with no radix, on ASCII text: leading white space is skipped, a sign is
  read, a \<open>0x\<close> prefix selects radix 16, and the longest prefix of digits is the value;
  when there is no digit the result is \<open>NaN\<close>.
\<close>

definition is_ws :: "char \<Rightarrow> bool" where
  "is_ws c = ((of_char c :: nat) \<in> {9, 10, 11, 12, 13, 32})"

definition digit_val :: "char \<Rightarrow> nat option" where
  "digit_val c =
     (let n = (of_char c :: nat) in
      if 48 \<le> n \<and> n \<le> 57 then Some (n - 48)
      else if 97 \<le> n \<and> n \<le> 122 then Some (n - 87)
      else if 65 \<le> n \<and> n \<le> 90 then Some (n - 55)
      else None)"

definition is_digit :: "nat \<Rightarrow> char \<Rightarrow> bool" where
  "is_digit radix c = (case digit_val c of None \<Rightarrow> False | Some d \<Rightarrow> d < radix)"

definition digits_value :: "nat \<Rightarrow> string \<Rightarrow> nat" where
  "digits_value radix ds =
     foldl (\<lambda>acc c. acc * radix + (case digit_val c of None \<Rightarrow> 0 | Some d \<Rightarrow> d)) 0 ds"

definition parse_radix :: "int \<Rightarrow> nat \<Rightarrow> string \<Rightarrow> jsnum" where
  "parse_radix sign radix s =
     (let ds = takeWhile (is_digit radix) s in
      if ds = [] then NaN else Num (sign * int (digits_value radix ds)))"

fun parse_prefix :: "int \<Rightarrow> string \<Rightarrow> jsnum" where
  "parse_prefix sign (a # b # rest) =
     (if a = CHR ''0'' \<and> (b = CHR ''x'' \<or> b = CHR ''X'')
      then parse_radix sign 16 rest else parse_radix sign 10 (a # b # rest))"
| "parse_prefix sign s = parse_radix sign 10 s"

fun parse_sign :: "string \<Rightarrow> jsnum" where
  "parse_sign (c # rest) =
     (if c = CHR ''-'' then parse_prefix (- 1) rest
      else if c = CHR ''+'' then parse_prefix 1 rest
      else parse_prefix 1 (c # rest))"
| "parse_sign [] = NaN"

definition parseInt :: "string \<Rightarrow> jsnum" where
  "parseInt s = parse_sign (dropWhile is_ws s)"

subsection \<open>Binary64 products\<close>

text \<open>
  \<open>x * y\<close> on JavaScript numbers is the exact product rounded to the nearest binary64
  value, ties to the even significand. \<open>binary_exponent x\<close> is the \<open>e\<close> with
  \<open>2^e \<le> |x| < 2^(e+1)\<close>, found by halving or doubling (binary64 exponents lie
  within the 2200 steps allowed); the significand has 53 bits, and below \<open>2^-1022\<close> the
  spacing stays that of the subnormal numbers. A product beyond the binary64 range
  (\<open>Infinity\<close>) is outside the model.
\<close>

fun exponent_from :: "nat \<Rightarrow> int \<Rightarrow> real \<Rightarrow> int" where
  "exponent_from 0 e x = e"
| "exponent_from (Suc n) e x =
     (if 2 \<le> x then exponent_from n (e + 1) (x / 2)
      else if x < 1 then exponent_from n (e - 1) (x * 2)
      else e)"

definition binary_exponent :: "real \<Rightarrow> int" where
  "binary_exponent x = exponent_from 2200 0 \<bar>x\<bar>"

definition pow2 :: "int \<Rightarrow> real" where
  "pow2 k = (if 0 \<le> k then 2 ^ nat k else 1 / 2 ^ nat (- k))"

definition round_half_even :: "real \<Rightarrow> int" where
  "round_half_even x =
     (let f = \<lfloor>x\<rfloor>; d = x - of_int f in
      if d < 1 / 2 then f
      else if 1 / 2 < d then f + 1
      else if even f then f else f + 1)"

definition to_double :: "real \<Rightarrow> real" where
  "to_double x =
     (if x = 0 then 0
      else (let e = max (binary_exponent x) (- 1022);
                q = pow2 (e - 52)
            in sgn x * of_int (round_half_even (\<bar>x\<bar> / q)) * q))"

definition double_mul :: "real \<Rightarrow> real \<Rightarrow> real" where
  "double_mul x y = to_double (x * y)"

section \<open>The strategy engine (strategyEngine.js)\<close>

subsection \<open>Configuration\<close>

record trading =
  tradeSize :: real
  slippageThresholdA :: real
  slippageThresholdB :: real
  slopeThreshold :: real
  cfg_strategy :: string

record config =
  trading :: trading

subsection \<open>The decoded message\<close>

text \<open>
  Every field of the decoded record may be missing and most have two spellings. The
  lower-case spelling of a field whose name would clash carries the prefix of its object.
\<close>

record bucket =
  SlippageBasisPoints :: "int option"
  slippageBasisPoints :: "int option"
  Price :: "real option"
  price :: "real option"

datatype currency =
  CurrencyObj (SmartContract: "string option") (smartContract: "string option")
| CurrencyStr string

record pool_msg =
  pool_SmartContract :: "string option"
  pool_smartContract :: "string option"
  CurrencyA :: "currency option"
  currencyA :: "currency option"
  CurrencyB :: "currency option"
  currencyB :: "currency option"

text \<open>
  \<open>TransactionHeader.Time\<close>: an object with optional \<open>low\<close> and \<open>high\<close> parts, a string,
  a number, or a truthy value of another type (\<open>true\<close>, for instance).
\<close>

datatype time_value =
  TimeObj "int option" "int option"
| TimeStr string
| TimeNum jsnum
| TimeOther

record tx_header =
  Time :: "time_value option"

record price_table =
  AtoBPrices :: "bucket list option"
  atoBPrices :: "bucket list option"
  BtoAPrices :: "bucket list option"
  btoAPrices :: "bucket list option"

text \<open>
  \<open>Liquidity.AmountCurrencyA\<close> and \<open>liquidity.amountCurrencyA\<close> are read through
  \<open>x && x.f\<close>, which is falsy when the object or the field is missing: each is one
  optional number here.
\<close>

record decoded_message =
  Pool :: "pool_msg option"
  pool :: "pool_msg option"
  msg_poolAddress :: "string option"
  TransactionHeader :: "tx_header option"
  transactionHeader :: "tx_header option"
  Liquidity_AmountCurrencyA :: "real option"
  liquidity_amountCurrencyA :: "real option"
  PoolPriceTable :: "price_table option"
  poolPriceTable :: "price_table option"

subsection \<open>The snapshot\<close>

datatype direction = AtoB | BtoA

text \<open>
  The \<open>prices\<close> object maps basis points to prices. It is an association list; writing a
  key that exists replaces its value, as a property assignment does.
\<close>

type_synonym prices_obj = "(int \<times> real) list"

fun obj_set :: "prices_obj \<Rightarrow> int \<Rightarrow> real \<Rightarrow> prices_obj" where
  "obj_set [] k v = [(k, v)]"
| "obj_set ((k', v') # rest) k v =
     (if k' = k then (k, v) # rest else (k', v') # obj_set rest k v)"

definition obj_get :: "prices_obj \<Rightarrow> int \<Rightarrow> real option" where
  "obj_get ps k = map_of ps k"

definition obj_keys :: "prices_obj \<Rightarrow> int list" where
  "obj_keys ps = map fst ps"

record pool_data =
  poolAddress :: string
  tokenA :: currency
  tokenB :: currency
  addressA :: string
  addressB :: string
  liquidity :: real
  timestamp :: jsnum
  direction :: direction
  slippageBuckets :: "bucket list"
  prices :: prices_obj
  isWETHtoUSDT :: bool
  isUSDTtoWETH :: bool

definition USDT_ADDRESS :: string where
  "USDT_ADDRESS = ''0xdac17f958d2ee523a2206206994597c13d831ec7''"

definition WETH_ADDRESS :: string where
  "WETH_ADDRESS = ''0xc02aaa39b223fe8d0a0e5c4f27ead9083c756cc2''"

definition isSupportedToken :: "string \<Rightarrow> bool" where
  "isSupportedToken address =
     (if address = [] then False
      else (let addr = toLowerCase address in
            addr = toLowerCase USDT_ADDRESS \<or> addr = toLowerCase WETH_ADDRESS))"

text \<open>\<open>x.SmartContract || x.smartContract || (typeof x === 'string' ? x : '')\<close>\<close>

definition currency_address :: "currency \<Rightarrow> string" where
  "currency_address c =
     (case c of
        CurrencyObj a b \<Rightarrow> (case js_or_str a b of Some s \<Rightarrow> s | None \<Rightarrow> [])
      | CurrencyStr s \<Rightarrow> s)"

definition truthy_currency :: "currency option \<Rightarrow> bool" where
  "truthy_currency c =
     (case c of None \<Rightarrow> False | Some (CurrencyStr s) \<Rightarrow> s \<noteq> [] | Some (CurrencyObj a b) \<Rightarrow> True)"

text \<open>\<open>pool.CurrencyA || pool.currencyA || {}\<close>\<close>

definition pick_currency :: "currency option \<Rightarrow> currency option \<Rightarrow> currency" where
  "pick_currency a b =
     (case (if truthy_currency a then a else if truthy_currency b then b else None) of
        Some c \<Rightarrow> c
      | None \<Rightarrow> CurrencyObj None None)"

text \<open>The timestamp of lines 67 to 80; \<open>now\<close> is the reading of \<open>Date.now()\<close>.\<close>

definition truthy_time :: "time_value option \<Rightarrow> bool" where
  "truthy_time t =
     (case t of
        None \<Rightarrow> False
      | Some (TimeStr s) \<Rightarrow> s \<noteq> []
      | Some (TimeNum n) \<Rightarrow> truthy_jsnum n
      | Some _ \<Rightarrow> True)"

definition extract_timestamp :: "int \<Rightarrow> tx_header option \<Rightarrow> jsnum" where
  "extract_timestamp now txHeader =
     (case txHeader of
        None \<Rightarrow> Num now
      | Some h \<Rightarrow>
          (case (if truthy_time (Time h) then Time h else None) of
             None \<Rightarrow> Num now
           | Some timeObj \<Rightarrow>
               (case timeObj of
                  TimeObj (Some lo) (Some hi) \<Rightarrow> Num (lo + hi * 4294967296)
                | TimeObj _ _ \<Rightarrow> Num now
                | TimeStr s \<Rightarrow> parseInt s
                | TimeNum n \<Rightarrow> n
                | TimeOther \<Rightarrow> Num now)))"

text \<open>The loop of lines 107 to 114 building the \<open>prices\<close> object.\<close>

definition bucket_bp :: "bucket \<Rightarrow> int" where
  "bucket_bp b =
     (case js_or (SlippageBasisPoints b) (slippageBasisPoints b) of
        Some n \<Rightarrow> (if n \<noteq> 0 then n else 0)
      | None \<Rightarrow> 0)"

definition bucket_price :: "bucket \<Rightarrow> real option" where
  "bucket_price b = (let p = js_or (Price b) (price b) in if truthy p then p else None)"

definition build_prices :: "bucket list \<Rightarrow> prices_obj" where
  "build_prices bs =
     foldl (\<lambda>ps b. case bucket_price b of None \<Rightarrow> ps | Some p \<Rightarrow> obj_set ps (bucket_bp b) p) [] bs"

definition pick_table :: "bucket list option \<Rightarrow> bucket list option \<Rightarrow> bucket list" where
  "pick_table a b = (case a of Some t \<Rightarrow> t | None \<Rightarrow> (case b of Some t \<Rightarrow> t | None \<Rightarrow> []))"

definition extractPoolData :: "int \<Rightarrow> decoded_message \<Rightarrow> pool_data option" where
  "extractPoolData now decodedMessage =
     (let pool_v = (case Pool decodedMessage of Some p \<Rightarrow> p
                    | None \<Rightarrow> (case pool decodedMessage of Some p \<Rightarrow> p
                       | None \<Rightarrow> \<lparr>pool_SmartContract = None, pool_smartContract = None,
                                  CurrencyA = None, currencyA = None,
                                  CurrencyB = None, currencyB = None\<rparr>));
          currencyA_v = pick_currency (CurrencyA pool_v) (currencyA pool_v);
          currencyB_v = pick_currency (CurrencyB pool_v) (currencyB pool_v);
          addressA_v = currency_address currencyA_v;
          addressB_v = currency_address currencyB_v
      in if \<not> isSupportedToken addressA_v \<or> \<not> isSupportedToken addressB_v then None
         else
           (let isWETHtoUSDT_v = (toLowerCase addressA_v = toLowerCase WETH_ADDRESS \<and>
                                  toLowerCase addressB_v = toLowerCase USDT_ADDRESS);
                isUSDTtoWETH_v = (toLowerCase addressA_v = toLowerCase USDT_ADDRESS \<and>
                                  toLowerCase addressB_v = toLowerCase WETH_ADDRESS);
                poolAddress_v =
                  (case js_or_str (js_or_str (pool_SmartContract pool_v) (pool_smartContract pool_v))
                          (msg_poolAddress decodedMessage) of
                     Some s \<Rightarrow> (if s \<noteq> [] then s else ''unknown'')
                   | None \<Rightarrow> ''unknown'');
                txHeader = (case TransactionHeader decodedMessage of Some h \<Rightarrow> Some h
                            | None \<Rightarrow> transactionHeader decodedMessage);
                timestamp_v = extract_timestamp now txHeader;
                liquidity_v =
                  (case js_or (Liquidity_AmountCurrencyA decodedMessage)
                              (liquidity_amountCurrencyA decodedMessage) of
                     Some l \<Rightarrow> (if l \<noteq> 0 then l else 0)
                   | None \<Rightarrow> 0);
                priceTable = (case PoolPriceTable decodedMessage of Some t \<Rightarrow> t
                              | None \<Rightarrow> (case poolPriceTable decodedMessage of Some t \<Rightarrow> t
                                 | None \<Rightarrow> \<lparr>AtoBPrices = None, atoBPrices = None,
                                            BtoAPrices = None, btoAPrices = None\<rparr>));
                atoB = pick_table (AtoBPrices priceTable) (atoBPrices priceTable);
                btoA = pick_table (BtoAPrices priceTable) (btoAPrices priceTable);
                direction_v = (if isUSDTtoWETH_v then BtoA else AtoB);
                slippageBuckets_v = (if isUSDTtoWETH_v then btoA else atoB)
            in Some \<lparr>poolAddress = poolAddress_v, tokenA = currencyA_v, tokenB = currencyB_v,
                     addressA = addressA_v, addressB = addressB_v, liquidity = liquidity_v,
                     timestamp = timestamp_v, direction = direction_v,
                     slippageBuckets = slippageBuckets_v,
                     prices = build_prices slippageBuckets_v,
                     isWETHtoUSDT = isWETHtoUSDT_v, isUSDTtoWETH = isUSDTtoWETH_v\<rparr>))"

subsection \<open>Signal generation\<close>

definition generateSignal :: "config option \<Rightarrow> real option \<Rightarrow> real option \<Rightarrow> error + side option" where
  "generateSignal cfg slope_v deltaSlope_v =
     (case slope_v of
        None \<Rightarrow> Inr None
      | Some s \<Rightarrow>
         (case deltaSlope_v of
            None \<Rightarrow> Inr None
          | Some d \<Rightarrow>
             (case cfg of
                None \<Rightarrow> Inl TypeError
              | Some c \<Rightarrow>
                 (let threshold = slopeThreshold (trading c) in
                  if d < 0 \<and> s < threshold then Inr (Some BUY)
                  else if d > 0 \<or> s > threshold then Inr (Some SELL)
                  else Inr None))))"

subsection \<open>Slope\<close>

text \<open>
  The callback of both \<open>reduce\<close> calls of \<open>calculateSlope\<close>: the new key replaces the
  closest one only when it is strictly nearer to the reference.
\<close>

definition closer :: "int \<Rightarrow> int \<Rightarrow> int \<Rightarrow> int" where
  "closer ref closest bp = (if \<bar>bp - ref\<bar> < \<bar>closest - ref\<bar> then bp else closest)"

text \<open>
  \<open>prices[10]\<close> and \<open>prices['10']\<close> read the same property. The keys are integers
  (basis points, written in decimal digits), so \<open>parseInt\<close> gives each key back, and the
  comparator sorts them ascending. Both \<open>reduce\<close> calls are guarded by
  \<open>basisPoints.length > 0\<close>.
\<close>

definition calculateSlope :: "pool_data \<Rightarrow> real option" where
  "calculateSlope poolData_v =
     (let ps = prices poolData_v;
          price01 = js_or (obj_get ps 10) (obj_get ps 10);
          price1 = js_or (obj_get ps 100) (obj_get ps 100);
          searching = (\<not> truthy price01 \<or> \<not> truthy price1);
          basisPoints = sort (obj_keys ps);
          price01Value =
            (if searching \<and> \<not> truthy price01
             then (case basisPoints of [] \<Rightarrow> price01
                   | k # ks \<Rightarrow> obj_get ps (foldl (closer 10) k ks))
             else price01);
          price1Value =
            (if searching \<and> \<not> truthy price1
             then (case basisPoints of [] \<Rightarrow> price1
                   | k # ks \<Rightarrow> obj_get ps (foldl (closer 100) k ks))
             else price1)
      in if \<not> truthy price01Value \<or> \<not> truthy price1Value \<or> price01Value = Some 0 then None
         else (case price01Value of None \<Rightarrow> None
               | Some p01 \<Rightarrow> (case price1Value of None \<Rightarrow> None
                  | Some p1 \<Rightarrow> Some ((p1 - p01) / p01))))"

subsection \<open>History\<close>

record slope_record =
  sr_timestamp :: jsnum
  sr_slope :: real
  sr_deltaSlope :: real

record engine =
  config :: "config option"
  slopeHistory :: "string \<rightharpoonup> slope_record list"

definition engine_init :: engine where
  "engine_init = \<lparr>config = None, slopeHistory = Map.empty\<rparr>"

definition initializeStrategy :: "config \<Rightarrow> engine \<Rightarrow> engine" where
  "initializeStrategy cfg st = st\<lparr>config := Some cfg\<rparr>"

definition maxHistorySize :: nat where
  "maxHistorySize = 100"

definition calculateDeltaSlope :: "engine \<Rightarrow> string \<Rightarrow> real \<Rightarrow> real option" where
  "calculateDeltaSlope st poolAddress_v currentSlope =
     (let history = (case slopeHistory st poolAddress_v of Some h \<Rightarrow> h | None \<Rightarrow> []) in
      if length history = 0 then None
      else Some (currentSlope - sr_slope (last history)))"

definition updateHistory :: "int \<Rightarrow> pool_data \<Rightarrow> real \<Rightarrow> engine \<Rightarrow> engine" where
  "updateHistory now poolData_v slope_v st =
     (let poolAddress_v = poolAddress poolData_v;
          timestamp_v = (if truthy_jsnum (timestamp poolData_v) then timestamp poolData_v
                         else Num now);
          history = (case slopeHistory st poolAddress_v of Some h \<Rightarrow> h | None \<Rightarrow> []);
          deltaSlope_v = (if length history > 0 then slope_v - sr_slope (last history) else 0);
          pushed = history @ [\<lparr>sr_timestamp = timestamp_v, sr_slope = slope_v,
                                sr_deltaSlope = deltaSlope_v\<rparr>];
          shifted = (if length pushed > maxHistorySize then tl pushed else pushed)
      in st\<lparr>slopeHistory := (slopeHistory st)(poolAddress_v \<mapsto> shifted)\<rparr>)"

subsection \<open>The pipeline\<close>

record strategy_result =
  res_poolData :: pool_data
  res_slope :: "real option"
  res_deltaSlope :: "real option"
  res_signal :: "side option"

text \<open>
  \<open>now1\<close> is the clock reading inside \<open>extractPoolData\<close>, \<open>now2\<close> the one inside
  \<open>updateHistory\<close>. When \<open>generateSignal\<close> throws, the history is already updated.
\<close>

definition processPoolData ::
  "engine \<Rightarrow> int \<Rightarrow> int \<Rightarrow> decoded_message \<Rightarrow> (error + strategy_result option) \<times> engine" where
  "processPoolData st now1 now2 decodedMessage =
     (case extractPoolData now1 decodedMessage of
        None \<Rightarrow> (Inr None, st)
      | Some poolData_v \<Rightarrow>
         (case calculateSlope poolData_v of
            None \<Rightarrow> (Inr (Some \<lparr>res_poolData = poolData_v, res_slope = None,
                                res_deltaSlope = None, res_signal = None\<rparr>), st)
          | Some slope_v \<Rightarrow>
             (let deltaSlope_v = calculateDeltaSlope st (poolAddress poolData_v) slope_v;
                  st' = updateHistory now2 poolData_v slope_v st
              in case generateSignal (config st') (Some slope_v) deltaSlope_v of
                   Inl e \<Rightarrow> (Inl e, st')
                 | Inr signal_v \<Rightarrow>
                     (Inr (Some \<lparr>res_poolData = poolData_v, res_slope = Some slope_v,
                                 res_deltaSlope = deltaSlope_v, res_signal = signal_v\<rparr>), st'))))"

section \<open>The trade simulator (tradeSimulator.js)\<close>

text \<open>
  A trade is an object that the \<open>trades\<close> array and \<open>openPosition\<close> may both refer to, and
  closing a position writes through \<open>openPosition\<close>. The objects live in a store, a list
  indexed by address; \<open>trades\<close> holds addresses and \<open>openPosition\<close> an optional address.
\<close>

record trade =
  trade_id :: string
  trade_type :: side
  amount :: real
  entryPrice :: real
  exitPrice :: "real option"
  entryTimestamp :: int
  exitTimestamp :: "int option"
  trade_poolAddress :: string
  trade_strategy :: string
  trade_slippage :: real

record ledger =
  store :: "trade list"
  trades :: "nat list"
  openPosition :: "nat option"
  tradeCounter :: nat

definition ledger_init :: ledger where
  "ledger_init = \<lparr>store = [], trades = [], openPosition = None, tradeCounter = 0\<rparr>"

text \<open>Decimal rendering of the numbers in the template string of \<open>generateTradeId\<close>.\<close>

fun show_nat :: "nat \<Rightarrow> string" where
  "show_nat n =
     (if n < 10 then [char_of (48 + n)]
      else show_nat (n div 10) @ [char_of (48 + n mod 10)])"

declare show_nat.simps [simp del]

definition show_int :: "int \<Rightarrow> string" where
  "show_int i = (if i < 0 then CHR ''-'' # show_nat (nat (- i)) else show_nat (nat i))"

definition generateTradeId :: "int \<Rightarrow> ledger \<Rightarrow> string \<times> ledger" where
  "generateTradeId now l =
     (let l' = l\<lparr>tradeCounter := tradeCounter l + 1\<rparr> in
      (''trade-'' @ show_int now @ ''-'' @ show_nat (tradeCounter l'), l'))"

text \<open>
  \<open>Math.round\<close> gives the nearest integer of its argument, a half going towards plus
  infinity. In \<open>getExecutionPrice\<close> its argument is the binary64 product
  \<open>slippage * 10000\<close>.
\<close>

definition Math_round :: "real \<Rightarrow> int" where
  "Math_round x = \<lfloor>x + 1 / 2\<rfloor>"

text \<open>The callback of the \<open>reduce\<close> call of \<open>getExecutionPrice\<close>.\<close>

definition closer_bucket :: "int \<Rightarrow> bucket \<Rightarrow> bucket \<Rightarrow> bucket" where
  "closer_bucket slippageBasisPoints_v closest b =
     (let currentBp = bucket_bp b;
          closestBp = bucket_bp closest;
          currentDiff = \<bar>currentBp - slippageBasisPoints_v\<bar>;
          closestDiff = \<bar>closestBp - slippageBasisPoints_v\<bar>
      in if currentDiff < closestDiff then b else closest)"

definition getExecutionPrice :: "pool_data \<Rightarrow> real \<Rightarrow> real \<Rightarrow> side \<Rightarrow> real option" where
  "getExecutionPrice poolData_v amount_v slippage dir =
     (let slippageBasisPoints_v = Math_round (double_mul slippage 10000);
          buckets = slippageBuckets poolData_v
      in case buckets of
           [] \<Rightarrow>
             (let ps = prices poolData_v in
              if length (obj_keys ps) > 0
              then (let r = js_or (obj_get ps slippageBasisPoints_v)
                                  (obj_get ps slippageBasisPoints_v)
                    in if truthy r then r else None)
              else None)
         | b0 # rest \<Rightarrow>
             (let targetBucket =
                    (case find (\<lambda>b. bucket_bp b = slippageBasisPoints_v) buckets of
                       Some b \<Rightarrow> b
                     | None \<Rightarrow> foldl (closer_bucket slippageBasisPoints_v) b0 rest)
              in bucket_price targetBucket))"

text \<open>
  \<open>now1\<close> and \<open>now2\<close> are the two clock readings of each operation, in the order of
  the calls. A snapshot has no \<open>address\<close> property, so the pool address of a trade is
  \<open>poolData.poolAddress || 'unknown'\<close>.
\<close>

definition executeBuy ::
  "ledger \<Rightarrow> int \<Rightarrow> int \<Rightarrow> pool_data \<Rightarrow> real \<Rightarrow> real \<Rightarrow> string \<Rightarrow> (error + nat) \<times> ledger" where
  "executeBuy l now1 now2 poolData_v amount_v slippage strategy_v =
     (let price_v = getExecutionPrice poolData_v amount_v slippage BUY in
      case price_v of
        None \<Rightarrow> (Inl (Error ''Unable to determine execution price for BUY''), l)
      | Some p \<Rightarrow>
          if p = 0 then (Inl (Error ''Unable to determine execution price for BUY''), l)
          else
            (let (tid, l1) = generateTradeId now1 l;
                 t = \<lparr>trade_id = tid, trade_type = BUY, amount = amount_v, entryPrice = p,
                      exitPrice = None, entryTimestamp = now2, exitTimestamp = None,
                      trade_poolAddress =
                        (if poolAddress poolData_v \<noteq> [] then poolAddress poolData_v
                         else ''unknown''),
                      trade_strategy = strategy_v, trade_slippage = slippage\<rparr>;
                 a = length (store l1)
             in (Inr a, l1\<lparr>store := store l1 @ [t], trades := trades l1 @ [a],
                           openPosition := Some a\<rparr>)))"

definition executeSell ::
  "ledger \<Rightarrow> int \<Rightarrow> int \<Rightarrow> pool_data \<Rightarrow> real \<Rightarrow> real \<Rightarrow> string \<Rightarrow> (error + trade option) \<times> ledger" where
  "executeSell l now1 now2 poolData_v amount_v slippage strategy_v =
     (case openPosition l of
        None \<Rightarrow> (Inr None, l)
      | Some a \<Rightarrow>
         (let price_v = getExecutionPrice poolData_v amount_v slippage SELL in
          case price_v of
            None \<Rightarrow> (Inl (Error ''Unable to determine execution price for SELL''), l)
          | Some p \<Rightarrow>
              if p = 0 then (Inl (Error ''Unable to determine execution price for SELL''), l)
              else
                (let closed = (store l ! a)\<lparr>exitPrice := Some p, exitTimestamp := Some now1\<rparr>;
                     l1 = l\<lparr>store := (store l)[a := closed]\<rparr>;
                     t = (store l1 ! a)\<lparr>exitPrice := Some p, exitTimestamp := Some now2\<rparr>
                 in (Inr (Some t), l1\<lparr>openPosition := None\<rparr>))))"

definition calculatePnL :: "trade \<Rightarrow> real" where
  "calculatePnL t =
     (if \<not> truthy (exitPrice t) then 0
      else (case exitPrice t of
              None \<Rightarrow> 0
            | Some x \<Rightarrow>
                if trade_type t = BUY then (x - entryPrice t) * amount t
                else (entryPrice t - x) * amount t))"

definition resetTrades :: "ledger \<Rightarrow> ledger" where
  "resetTrades l = l\<lparr>trades := [], openPosition := None, tradeCounter := 0\<rparr>"

text \<open>Sequences of ledger operations; an operation that throws leaves the ledger as it is.\<close>

datatype ledger_op =
  OpBuy int int pool_data real real string
| OpSell int int pool_data real real string
| OpReset

fun apply_op :: "ledger \<Rightarrow> ledger_op \<Rightarrow> ledger" where
  "apply_op l (OpBuy n1 n2 pd a s g) = snd (executeBuy l n1 n2 pd a s g)"
| "apply_op l (OpSell n1 n2 pd a s g) = snd (executeSell l n1 n2 pd a s g)"
| "apply_op l OpReset = resetTrades l"

definition run_ops :: "ledger \<Rightarrow> ledger_op list \<Rightarrow> ledger" where
  "run_ops l ops = foldl apply_op l ops"

section \<open>Specification\<close>

text \<open>
  The definitions below are not translations of code. They follow the words of the
  specification, or give the theorems their vocabulary: sequences of calls, the ledger
  invariant, example records. The theorems compare them with the code.
\<close>

subsection \<open>Slope (4.2)\<close>

text \<open>
  A reference price is unresolved when no bucket supplies one, or when the price supplied
  is zero: under the rule of 4.2 a zero price is indistinguishable from an absent one.
\<close>

definition unresolved :: "real option \<Rightarrow> bool" where
  "unresolved p = (case p of None \<Rightarrow> True | Some v \<Rightarrow> v = 0)"

text \<open>
  The basis-point value with the smallest absolute distance to the reference, the smaller
  value on a tie.
\<close>

definition nearest_key :: "int \<Rightarrow> int list \<Rightarrow> int option" where
  "nearest_key ref ks =
     (if ks = [] then None
      else Some (Min {k \<in> set ks. \<forall>k' \<in> set ks. \<bar>k - ref\<bar> \<le> \<bar>k' - ref\<bar>}))"

text \<open>The exact bucket if present, otherwise the nearest one.\<close>

definition price_at :: "prices_obj \<Rightarrow> int \<Rightarrow> real option" where
  "price_at ps ref =
     (if ref \<in> set (obj_keys ps) then obj_get ps ref
      else (case nearest_key ref (obj_keys ps) of None \<Rightarrow> None | Some k \<Rightarrow> obj_get ps k))"

definition slope_spec :: "prices_obj \<Rightarrow> real option" where
  "slope_spec ps =
     (case (price_at ps 10, price_at ps 100) of
        (Some p10, Some p100) \<Rightarrow>
          if unresolved (Some p10) \<or> unresolved (Some p100) \<or> p10 = 0 then None
          else Some ((p100 - p10) / p10)
      | _ \<Rightarrow> None)"

subsection \<open>Execution price (4.5)\<close>

text \<open>
  A bucket is a pair of basis points and a price, each field in either of its two
  spellings: the basis points are 0 when the bucket carries none, and the bucket has no
  price when the field is missing or zero. The basis points requested are
  \<open>round(fraction * 10000)\<close>, the product being the machine's. With no bucket table the
  flat map is consulted; otherwise the price is that of the exact-match bucket; otherwise
  that of the bucket at minimal distance, the earliest in table order on a tie.
\<close>

definition basis_points_of :: "bucket \<Rightarrow> int" where
  "basis_points_of b =
     (let lower = (case slippageBasisPoints b of Some k \<Rightarrow> k | None \<Rightarrow> 0) in
      case SlippageBasisPoints b of
        Some n \<Rightarrow> (if n = 0 then lower else n)
      | None \<Rightarrow> lower)"

definition price_of :: "bucket \<Rightarrow> real option" where
  "price_of b =
     (let lower = (case price b of Some w \<Rightarrow> (if w = 0 then None else Some w) | None \<Rightarrow> None) in
      case Price b of
        Some v \<Rightarrow> (if v = 0 then lower else Some v)
      | None \<Rightarrow> lower)"

definition exec_price_spec :: "pool_data \<Rightarrow> real \<Rightarrow> real option" where
  "exec_price_spec pd fraction =
     (let bp = round (double_mul fraction 10000);
          bs = slippageBuckets pd;
          dist = (\<lambda>b. \<bar>basis_points_of b - bp\<bar>)
      in if bs = []
         then (case obj_get (prices pd) bp of
                 None \<Rightarrow> None
               | Some v \<Rightarrow> if v = 0 then None else Some v)
         else (case find (\<lambda>b. basis_points_of b = bp) bs of
                 Some b \<Rightarrow> price_of b
               | None \<Rightarrow>
                   (case find (\<lambda>b. dist b = Min (dist ` set bs)) bs of
                      Some b \<Rightarrow> price_of b
                    | None \<Rightarrow> None)))"

subsection \<open>History (4.3)\<close>

text \<open>
  A history update is a call of \<open>updateHistory\<close>: the clock reading, the snapshot and
  the slope. \<open>arrivals p ups\<close> is the sequence of all records appended for pool \<open>p\<close> by
  the updates \<open>ups\<close>, in arrival order, with nothing evicted.
\<close>

type_synonym history_update = "int \<times> pool_data \<times> real"

definition run_updates :: "engine \<Rightarrow> history_update list \<Rightarrow> engine" where
  "run_updates st ups = foldl (\<lambda>st (now, pd, s). updateHistory now pd s st) st ups"

definition history_of :: "engine \<Rightarrow> string \<Rightarrow> slope_record list" where
  "history_of st p = (case slopeHistory st p of Some h \<Rightarrow> h | None \<Rightarrow> [])"

definition append_record :: "int \<Rightarrow> pool_data \<Rightarrow> real \<Rightarrow> slope_record list \<Rightarrow> slope_record list" where
  "append_record now pd s h =
     h @ [\<lparr>sr_timestamp = (if truthy_jsnum (timestamp pd) then timestamp pd else Num now),
           sr_slope = s,
           sr_deltaSlope = (if h = [] then 0 else s - sr_slope (last h))\<rparr>]"

definition arrivals :: "string \<Rightarrow> history_update list \<Rightarrow> slope_record list" where
  "arrivals p ups =
     foldl (\<lambda>h (now, pd, s). if poolAddress pd = p then append_record now pd s h else h) [] ups"

definition most_recent :: "nat \<Rightarrow> 'a list \<Rightarrow> 'a list" where
  "most_recent n xs = drop (length xs - n) xs"

subsection \<open>Timestamp (4.1)\<close>

text \<open>The \<open>Time\<close> of the record's transaction header, in either spelling of the header.\<close>

definition header_time :: "decoded_message \<Rightarrow> time_value option" where
  "header_time m =
     (case TransactionHeader m of
        Some h \<Rightarrow> Time h
      | None \<Rightarrow> (case transactionHeader m of Some h \<Rightarrow> Time h | None \<Rightarrow> None))"

text \<open>
  The timestamp of a snapshot: \<open>low + high * 2^32\<close> for the split encoding, a non-zero
  number itself, the integer parse of a non-empty string (\<open>NaN\<close> when the string does not
  start with an integer), and the clock reading in every other case.
\<close>

definition resolve_time :: "int \<Rightarrow> time_value option \<Rightarrow> jsnum" where
  "resolve_time now t =
     (case t of
        Some (TimeObj (Some lo) (Some hi)) \<Rightarrow> Num (lo + hi * 2 ^ 32)
      | Some (TimeNum (Num n)) \<Rightarrow> (if n = 0 then Num now else Num n)
      | Some (TimeStr s) \<Rightarrow> (if s = [] then Num now else parseInt s)
      | _ \<Rightarrow> Num now)"

subsection \<open>Examples\<close>

text \<open>A WETH/USDT record with a given \<open>Time\<close> and A-to-B bucket table.\<close>

definition example_bucket :: "int \<Rightarrow> real \<Rightarrow> bucket" where
  "example_bucket bp p =
     \<lparr>SlippageBasisPoints = Some bp, slippageBasisPoints = None, Price = Some p, price = None\<rparr>"

definition example_message :: "time_value option \<Rightarrow> bucket list \<Rightarrow> decoded_message" where
  "example_message t bs =
     \<lparr>Pool = Some \<lparr>pool_SmartContract = Some ''0xpool'', pool_smartContract = None,
                    CurrencyA = Some (CurrencyObj (Some ''0xC02aaA39b223FE8D0A0e5C4F27eAD9083C756Cc2'') None),
                    currencyA = None,
                    CurrencyB = Some (CurrencyObj (Some ''0xdAC17F958D2ee523a2206206994597C13D831ec7'') None),
                    currencyB = None\<rparr>,
      pool = None, msg_poolAddress = None,
      TransactionHeader = Some \<lparr>Time = t\<rparr>, transactionHeader = None,
      Liquidity_AmountCurrencyA = Some 5, liquidity_amountCurrencyA = None,
      PoolPriceTable = Some \<lparr>AtoBPrices = Some bs, atoBPrices = None,
                              BtoAPrices = None, btoAPrices = None\<rparr>,
      poolPriceTable = None\<rparr>"

text \<open>The snapshot \<open>extractPoolData\<close> makes of it.\<close>

definition example_snapshot :: "int \<Rightarrow> time_value option \<Rightarrow> bucket list \<Rightarrow> pool_data" where
  "example_snapshot now t bs =
     \<lparr>poolAddress = ''0xpool'',
      tokenA = CurrencyObj (Some ''0xC02aaA39b223FE8D0A0e5C4F27eAD9083C756Cc2'') None,
      tokenB = CurrencyObj (Some ''0xdAC17F958D2ee523a2206206994597C13D831ec7'') None,
      addressA = ''0xC02aaA39b223FE8D0A0e5C4F27eAD9083C756Cc2'',
      addressB = ''0xdAC17F958D2ee523a2206206994597C13D831ec7'',
      liquidity = 5,
      timestamp = extract_timestamp now (Some \<lparr>Time = t\<rparr>),
      direction = AtoB,
      slippageBuckets = bs,
      prices = build_prices bs,
      isWETHtoUSDT = True,
      isUSDTtoWETH = False\<rparr>"

definition example_config :: config where
  "example_config =
     \<lparr>trading = \<lparr>tradeSize = 1, slippageThresholdA = 1 / 100, slippageThresholdB = 5 / 1000,
                  slopeThreshold = - 1 / 1000, cfg_strategy = ''A''\<rparr>\<rparr>"

subsection \<open>Ledger (3, 4.5)\<close>

text \<open>
  A ledger is well formed when every address in \<open>trades\<close> designates an object of the
  store, and the open-position reference, when there is one, is an element of \<open>trades\<close>
  whose object has no exit price.
\<close>

definition ledger_inv :: "ledger \<Rightarrow> bool" where
  "ledger_inv l =
     ((\<forall>a \<in> set (trades l). a < length (store l)) \<and>
      (case openPosition l of
         None \<Rightarrow> True
       | Some a \<Rightarrow> a \<in> set (trades l) \<and> exitPrice (store l ! a) = None))"

text \<open>The trade object \<open>executeBuy\<close> creates.\<close>

definition opened_trade ::
  "ledger \<Rightarrow> int \<Rightarrow> int \<Rightarrow> pool_data \<Rightarrow> real \<Rightarrow> real \<Rightarrow> string \<Rightarrow> real \<Rightarrow> trade" where
  "opened_trade l now1 now2 pd amount_v slippage strategy_v p =
     \<lparr>trade_id = ''trade-'' @ show_int now1 @ ''-'' @ show_nat (tradeCounter l + 1),
      trade_type = BUY, amount = amount_v, entryPrice = p, exitPrice = None,
      entryTimestamp = now2, exitTimestamp = None,
      trade_poolAddress = (if poolAddress pd \<noteq> [] then poolAddress pd else ''unknown''),
      trade_strategy = strategy_v, trade_slippage = slippage\<rparr>"

subsection \<open>Example ledgers\<close>

definition example_pool :: "string \<Rightarrow> int \<Rightarrow> real \<Rightarrow> pool_data" where
  "example_pool addr bp p = (example_snapshot 0 None [example_bucket bp p])\<lparr>poolAddress := addr\<rparr>"

section \<open>Properties of the strategy engine\<close>

subsection \<open>The example record\<close>

lemma example_addresses:
  "toLowerCase ''0xC02aaA39b223FE8D0A0e5C4F27eAD9083C756Cc2'' = WETH_ADDRESS \<and>
   toLowerCase ''0xdAC17F958D2ee523a2206206994597C13D831ec7'' = USDT_ADDRESS \<and>
   toLowerCase WETH_ADDRESS = WETH_ADDRESS \<and> toLowerCase USDT_ADDRESS = USDT_ADDRESS \<and>
   WETH_ADDRESS \<noteq> USDT_ADDRESS"
  by code_simp

lemma extract_example:
  "extractPoolData now (example_message t bs) = Some (example_snapshot now t bs)"
  using example_addresses
  by (simp add: extractPoolData_def example_message_def example_snapshot_def Let_def
        isSupportedToken_def pick_currency_def truthy_currency_def currency_address_def
        js_or_str_def truthy_str_def js_or_def truthy_def pick_table_def)

lemma example_prices:
  "build_prices [example_bucket k1 (numeral v1), example_bucket k2 (numeral v2)]
     = obj_set [(k1, numeral v1)] k2 (numeral v2)"
  by (simp add: build_prices_def example_bucket_def bucket_price_def bucket_bp_def js_or_def
        truthy_def Let_def)

text \<open>
  C1. With the configured threshold \<open>slopeThreshold (trading c)\<close>, \<open>generateSignal\<close>
  returns no signal when the slope or the delta slope is null; otherwise BUY when the
  delta is negative and the slope is below the threshold; otherwise SELL when the delta is
  positive or the slope is above the threshold; otherwise no signal. At slope equal to
  the threshold and delta 0 there is no signal.
\<close>

theorem generateSignal_spec:
  "generateSignal (Some c) None dv = Inr None \<and>
   generateSignal (Some c) sv None = Inr None \<and>
   generateSignal (Some c) (Some s) (Some d) =
     Inr (if d < 0 \<and> s < slopeThreshold (trading c) then Some BUY
          else if d > 0 \<or> s > slopeThreshold (trading c) then Some SELL
          else None) \<and>
   generateSignal (Some c) (Some (slopeThreshold (trading c))) (Some 0) = Inr None"
  by (simp add: generateSignal_def Let_def split: option.splits)

subsection \<open>Nearest-bucket searches\<close>

text \<open>
  A left fold that replaces the current element only by a strictly smaller one ends at the
  first element of the list whose measure is minimal.
\<close>

lemma find_append_gen: "find P (xs @ ys) = (case find P xs of Some x \<Rightarrow> Some x | None \<Rightarrow> find P ys)"
  by (induction xs) auto

lemma foldl_first_min:
  fixes d :: "'a \<Rightarrow> int"
  assumes step: "\<And>c x. f c x = (if d x < d c then x else c)"
  shows "find (\<lambda>x. d x = Min (d ` set (a # xs))) (a # xs) = Some (foldl f a xs)"
proof (induction xs rule: rev_induct)
  case Nil
  show ?case by simp
next
  case (snoc y ys)
  define zs where "zs = a # ys"
  define M where "M = Min (d ` set zs)"
  define c where "c = foldl f a ys"
  have ih: "find (\<lambda>x. d x = M) zs = Some c"
    using snoc unfolding zs_def M_def c_def .
  have dc: "d c = M"
    using ih by (auto simp: find_Some_iff)
  have ne: "zs \<noteq> []" by (simp add: zs_def)
  have lower: "\<And>x. x \<in> set zs \<Longrightarrow> M \<le> d x"
    unfolding M_def by simp
  have M': "Min (d ` set (zs @ [y])) = min (d y) M"
    unfolding M_def using ne by simp
  have goal: "find (\<lambda>x. d x = min (d y) M) (zs @ [y]) = Some (f c y)"
  proof (cases "d y < d c")
    case True
    then have m: "min (d y) M = d y" using dc by simp
    have "find (\<lambda>x. d x = d y) zs = None"
      using lower True dc by (fastforce simp: find_None_iff)
    then show ?thesis using True by (simp add: find_append_gen m step)
  next
    case False
    then have m: "min (d y) M = M" using dc by simp
    show ?thesis using False ih by (simp add: find_append_gen m step)
  qed
  have e1: "a # ys @ [y] = zs @ [y]" by (simp add: zs_def)
  have e2: "foldl f a (ys @ [y]) = f c y" by (simp add: c_def)
  show ?case unfolding e1 e2 M' by (rule goal)
qed

text \<open>In an ascending list the first element with a property is the least one with it.\<close>

lemma find_sorted_Min:
  fixes xs :: "int list"
  assumes "sorted xs" "find P xs = Some x"
  shows "x = Min {k \<in> set xs. P k}"
proof -
  from assms(2) obtain i where i: "i < length xs" "P (xs ! i)" "x = xs ! i" "\<forall>j<i. \<not> P (xs ! j)"
    by (auto simp: find_Some_iff)
  have fin: "finite {k \<in> set xs. P k}" by simp
  have mem: "x \<in> {k \<in> set xs. P k}" using i by simp
  have le: "\<And>k. k \<in> {k \<in> set xs. P k} \<Longrightarrow> x \<le> k"
  proof -
    fix k assume "k \<in> {k \<in> set xs. P k}"
    then obtain j where j: "j < length xs" "xs ! j = k" "P k" by (auto simp: in_set_conv_nth)
    then have "\<not> j < i" using i(4) by auto
    then have "i \<le> j" by simp
    then show "x \<le> k" using assms(1) i(1,3) j(1,2) by (auto simp: sorted_iff_nth_mono)
  qed
  have "Min {k \<in> set xs. P k} = x" by (rule Min_eqI[OF fin le mem])
  then show ?thesis by simp
qed

lemma closest_is_nearest:
  assumes "sort ks = k # rest"
  shows "nearest_key ref ks = Some (foldl (closer ref) k rest)"
proof -
  define d where "d = (\<lambda>x::int. \<bar>x - ref\<bar>)"
  have st: "\<And>c x. closer ref c x = (if d x < d c then x else c)"
    by (simp add: closer_def d_def)
  have f: "find (\<lambda>x. d x = Min (d ` set (k # rest))) (k # rest) = Some (foldl (closer ref) k rest)"
    by (rule foldl_first_min[OF st])
  have srt: "sorted (k # rest)" using assms by (metis sorted_sort)
  have seteq: "set (k # rest) = set ks" using assms by (metis set_sort)
  have ne: "ks \<noteq> []" using assms by auto
  have min_iff: "(d x = Min (d ` set ks)) = (\<forall>k' \<in> set ks. d x \<le> d k')" if x: "x \<in> set ks" for x
  proof
    assume "d x = Min (d ` set ks)"
    then show "\<forall>k' \<in> set ks. d x \<le> d k'" by simp
  next
    assume a: "\<forall>k' \<in> set ks. d x \<le> d k'"
    have "Min (d ` set ks) = d x"
    proof (rule Min_eqI)
      show "finite (d ` set ks)" by simp
      show "\<And>y. y \<in> d ` set ks \<Longrightarrow> d x \<le> y" using a by auto
      show "d x \<in> d ` set ks" using x by simp
    qed
    then show "d x = Min (d ` set ks)" by simp
  qed
  have "foldl (closer ref) k rest = Min {x \<in> set (k # rest). d x = Min (d ` set (k # rest))}"
    by (rule find_sorted_Min[OF srt f])
  also have "{x \<in> set (k # rest). d x = Min (d ` set (k # rest))} = {x \<in> set ks. \<forall>k' \<in> set ks. d x \<le> d k'}"
    unfolding seteq using min_iff by blast
  finally show ?thesis using ne by (simp add: nearest_key_def d_def)
qed

lemma nearest_exact:
  assumes "ref \<in> set ks"
  shows "nearest_key ref ks = Some ref"
proof -
  have "{k \<in> set ks. \<forall>k' \<in> set ks. \<bar>k - ref\<bar> \<le> \<bar>k' - ref\<bar>} = {ref}"
    using assms by auto
  then show ?thesis using assms by (auto simp: nearest_key_def)
qed

lemma price_at_nearest:
  "price_at ps ref = (case nearest_key ref (obj_keys ps) of None \<Rightarrow> None | Some k \<Rightarrow> obj_get ps k)"
  by (simp add: price_at_def nearest_exact)

lemma lookup_closest:
  "(case sort (obj_keys ps) of [] \<Rightarrow> None | k # ks \<Rightarrow> obj_get ps (foldl (closer ref) k ks)) = price_at ps ref"
proof (cases "sort (obj_keys ps)")
  case Nil
  then have "obj_keys ps = []" by (metis length_sort length_0_conv)
  then show ?thesis using Nil by (simp add: price_at_nearest nearest_key_def)
next
  case (Cons k ks)
  then show ?thesis by (simp add: price_at_nearest closest_is_nearest[OF Cons])
qed

lemma falsy_exact:
  assumes "\<not> truthy (obj_get ps ref)"
  shows "(case sort (obj_keys ps) of [] \<Rightarrow> obj_get ps ref | k # ks \<Rightarrow> obj_get ps (foldl (closer ref) k ks)) = price_at ps ref"
proof (cases "sort (obj_keys ps)")
  case Nil
  then have e: "obj_keys ps = []" by (metis length_sort length_0_conv)
  then have "ps = []" by (simp add: obj_keys_def)
  then show ?thesis using Nil e by (simp add: price_at_nearest nearest_key_def obj_get_def)
next
  case (Cons k ks)
  then show ?thesis using lookup_closest[of ps ref] by simp
qed

lemma truthy_exact:
  assumes "truthy (obj_get ps ref)"
  shows "price_at ps ref = obj_get ps ref"
proof -
  from assms obtain v where "obj_get ps ref = Some v" by (auto simp: truthy_def split: option.splits)
  then have "ref \<in> set (obj_keys ps)"
    by (auto simp: obj_get_def obj_keys_def dest: map_of_SomeD intro: rev_image_eqI)
  then show ?thesis by (simp add: price_at_def)
qed

lemma js_or_same: "js_or a a = a"
  by (simp add: js_or_def)

lemma pick10:
  "(if (\<not> truthy (obj_get ps 10) \<or> \<not> truthy (obj_get ps 100)) \<and> \<not> truthy (obj_get ps 10)
    then (case sort (obj_keys ps) of [] \<Rightarrow> obj_get ps 10
          | k # ks \<Rightarrow> obj_get ps (foldl (closer 10) k ks))
    else obj_get ps 10) = price_at ps 10"
  using falsy_exact[of ps 10] truthy_exact[of ps 10] by (cases "truthy (obj_get ps 10)") simp_all

lemma pick100:
  "(if (\<not> truthy (obj_get ps 10) \<or> \<not> truthy (obj_get ps 100)) \<and> \<not> truthy (obj_get ps 100)
    then (case sort (obj_keys ps) of [] \<Rightarrow> obj_get ps 100
          | k # ks \<Rightarrow> obj_get ps (foldl (closer 100) k ks))
    else obj_get ps 100) = price_at ps 100"
  using falsy_exact[of ps 100] truthy_exact[of ps 100] by (cases "truthy (obj_get ps 100)") simp_all

lemma calculateSlope_price_at:
  "calculateSlope pd =
     (if \<not> truthy (price_at (prices pd) 10) \<or> \<not> truthy (price_at (prices pd) 100)
         \<or> price_at (prices pd) 10 = Some 0 then None
      else (case price_at (prices pd) 10 of None \<Rightarrow> None
            | Some p01 \<Rightarrow> (case price_at (prices pd) 100 of None \<Rightarrow> None
               | Some p1 \<Rightarrow> Some ((p1 - p01) / p01))))"
  by (simp only: calculateSlope_def Let_def js_or_same pick10 pick100)

text \<open>
  C4. \<open>calculateSlope\<close> returns \<open>(price_at_100bp - price_at_10bp) / price_at_10bp\<close>, each
  reference price taken from the exact bucket if present and otherwise from the bucket
  nearest in basis points, the smaller basis-point value on a tie; it returns null when
  either reference price is unresolved (absent or zero) or the 10bp price is zero.
\<close>

theorem calculateSlope_spec: "calculateSlope pd = slope_spec (prices pd)"
  unfolding calculateSlope_price_at slope_spec_def
  by (cases "price_at (prices pd) 10"; cases "price_at (prices pd) 100")
     (simp_all add: truthy_def unresolved_def)

subsection \<open>The bounded history\<close>

lemma most_recent_empty: "0 < n \<Longrightarrow> (most_recent n xs = []) = (xs = [])"
  by (cases xs) (auto simp: most_recent_def)

lemma most_recent_last: "0 < n \<Longrightarrow> xs \<noteq> [] \<Longrightarrow> last (most_recent n xs) = last xs"
  by (cases xs) (auto simp: most_recent_def)

lemma most_recent_length: "length (most_recent n xs) \<le> n"
  by (simp add: most_recent_def)

lemma most_recent_snoc:
  assumes "0 < n"
  shows "(if length (most_recent n xs @ [r]) > n
          then tl (most_recent n xs @ [r]) else most_recent n xs @ [r])
         = most_recent n (xs @ [r])"
proof (cases "n \<le> length xs")
  case True
  then have ne: "drop (length xs - n) xs \<noteq> []" using assms by simp
  have "tl (drop (length xs - n) xs @ [r]) = drop (Suc (length xs - n)) xs @ [r]"
    using ne by (simp add: drop_Suc tl_drop)
  also have "Suc (length xs - n) = Suc (length xs) - n" using True by simp
  finally show ?thesis using True assms by (simp add: most_recent_def)
next
  case False
  then show ?thesis by (simp add: most_recent_def)
qed

lemma updateHistory_history:
  "history_of (updateHistory now pd s st) p =
     (if poolAddress pd = p
      then (let h = history_of st p;
                pushed = append_record now pd s h
            in if length pushed > maxHistorySize then tl pushed else pushed)
      else history_of st p)"
  by (simp add: updateHistory_def history_of_def append_record_def Let_def)

lemma history_is_most_recent:
  "history_of (run_updates engine_init ups) p = most_recent maxHistorySize (arrivals p ups)"
proof (induction ups rule: rev_induct)
  case Nil
  show ?case by (simp add: run_updates_def arrivals_def history_of_def engine_init_def most_recent_def)
next
  case (snoc u ups)
  obtain now pd s where u: "u = (now, pd, s)" by (cases u) auto
  define st where "st = run_updates engine_init ups"
  define A where "A = arrivals p ups"
  have ih: "history_of st p = most_recent (100) A"
    using snoc by (simp add: st_def A_def maxHistorySize_def)
  have run: "run_updates engine_init (ups @ [u]) = updateHistory now pd s st"
    by (simp add: run_updates_def st_def u)
  have arr: "arrivals p (ups @ [u]) = (if poolAddress pd = p then append_record now pd s A else A)"
    by (simp add: arrivals_def A_def u)
  show ?case
  proof (cases "poolAddress pd = p")
    case False
    then show ?thesis using ih by (simp add: run arr updateHistory_history maxHistorySize_def)
  next
    case True
    have same: "append_record now pd s (most_recent (100) A) = most_recent (100) A @ [last (append_record now pd s A)]"
      by (simp add: append_record_def most_recent_empty most_recent_last)
    have full: "append_record now pd s A = A @ [last (append_record now pd s A)]"
      by (simp add: append_record_def)
    have "history_of (updateHistory now pd s st) p = most_recent (100) (A @ [last (append_record now pd s A)])"
      unfolding updateHistory_history
      using True most_recent_snoc[of 100 A "last (append_record now pd s A)"]
      by (simp add: ih same Let_def maxHistorySize_def split: if_splits)
    then show ?thesis using True full by (simp add: run arr maxHistorySize_def)
  qed
qed

text \<open>The arrivals of a pool carry the slopes of its updates, in order.\<close>

lemma arrivals_slopes:
  "map sr_slope (arrivals p ups)
     = map (\<lambda>(now, pd, s). s) (filter (\<lambda>(now, pd, s). poolAddress pd = p) ups)"
proof (induction ups rule: rev_induct)
  case Nil
  show ?case by (simp add: arrivals_def)
next
  case (snoc u ups)
  obtain now pd s where u: "u = (now, pd, s)" by (cases u) auto
  have "arrivals p (ups @ [u]) = (if poolAddress pd = p then append_record now pd s (arrivals p ups)
                                  else arrivals p ups)"
    by (simp add: arrivals_def u)
  then show ?case using snoc by (simp add: u append_record_def)
qed

text \<open>
  C3. After any sequence of history updates, starting with no history, the history of
  every pool has at most 100 records, and they are the most recently appended records of
  that pool in arrival order: the arrivals without their oldest \<open>length - 100\<close> records.
\<close>

theorem history_bounded_fifo:
  "length (history_of (run_updates engine_init ups) p) \<le> 100 \<and>
   history_of (run_updates engine_init ups) p
     = drop (length (arrivals p ups) - 100) (arrivals p ups)"
  using history_is_most_recent[of ups p] most_recent_length[of 100 "arrivals p ups"]
  by (simp add: most_recent_def maxHistorySize_def)

subsection \<open>Timestamps\<close>

lemma parseInt_examples:
  "parseInt '' 12abc'' = Num 12 \<and> parseInt ''-0x1F'' = Num (- 31) \<and> parseInt ''abc'' = NaN \<and>
   parseInt [] = NaN \<and> parseInt ''1700000000000'' = Num 1700000000000"
  by (simp add: parseInt_def is_ws_def parse_radix_def is_digit_def digit_val_def digits_value_def)

lemma extract_timestamp_resolve:
  "extract_timestamp now (case TransactionHeader m of Some h \<Rightarrow> Some h | None \<Rightarrow> transactionHeader m)
     = resolve_time now (header_time m)"
  by (simp add: extract_timestamp_def resolve_time_def header_time_def truthy_time_def
        truthy_jsnum_def split: option.splits time_value.splits jsnum.splits)

lemma extractPoolData_timestamp:
  assumes "extractPoolData now m = Some pd"
  shows "timestamp pd = extract_timestamp now
           (case TransactionHeader m of Some h \<Rightarrow> Some h | None \<Rightarrow> transactionHeader m)"
  using assms by (auto simp: extractPoolData_def Let_def split: if_splits)

text \<open>
  C9, as the code has it. The timestamp of a snapshot is \<open>low + high * 2^32\<close> when
  \<open>Time\<close> has both parts, the number when \<open>Time\<close> is a non-zero number, and the integer
  parse when \<open>Time\<close> is a non-empty string; a string that does not start with an integer
  gives \<open>NaN\<close>, not the clock reading. The clock reading is the timestamp when the header
  or \<open>Time\<close> is missing, zero, \<open>NaN\<close> or the empty string, or has another shape.
\<close>

theorem snapshot_timestamp:
  "extractPoolData now m = Some pd \<Longrightarrow> timestamp pd = resolve_time now (header_time m)"
  using extractPoolData_timestamp[of now m pd] extract_timestamp_resolve[of now m] by simp

theorem snapshot_timestamp_witness:
  "map_option timestamp (extractPoolData 1700000000000
       (example_message (Some (TimeObj (Some 5) (Some 1))) [])) = Some (Num 4294967301)"
proof -
  have "resolve_time 1700000000000
          (header_time (example_message (Some (TimeObj (Some 5) (Some 1))) [])) = Num 4294967301"
    by (simp add: resolve_time_def header_time_def example_message_def)
  then show ?thesis
    using snapshot_timestamp[OF extract_example, of 1700000000000 "Some (TimeObj (Some 5) (Some 1))" "[]"]
    by (simp add: extract_example)
qed

text \<open>
  The claim as stated fails on a parse failure: with \<open>Time = "abc"\<close> the timestamp of
  the snapshot is \<open>NaN\<close>, while the clock reads 1700000000000.
\<close>

theorem snapshot_timestamp_counterexample:
  "map_option timestamp (extractPoolData 1700000000000 (example_message (Some (TimeStr ''abc'')) []))
     = Some NaN \<and> NaN \<noteq> Num 1700000000000"
  by (simp add: extract_example example_snapshot_def extract_timestamp_def truthy_time_def
        parseInt_def is_ws_def parse_radix_def is_digit_def digit_val_def)

subsection \<open>Slope of an extracted snapshot\<close>

theorem calculateSlope_spec_witness:
  "calculateSlope (example_snapshot 0 None [example_bucket 20 100, example_bucket 50 99])
     = Some (- 1 / 100) \<and>
   slope_spec (prices (example_snapshot 0 None [example_bucket 20 100, example_bucket 50 99]))
     = Some (- 1 / 100)"
proof -
  have "calculateSlope (example_snapshot 0 None [example_bucket 20 100, example_bucket 50 99])
          = Some (- 1 / 100)"
    by (simp add: calculateSlope_def example_snapshot_def example_prices obj_get_def obj_keys_def
          js_or_def truthy_def closer_def Let_def)
  then show ?thesis
    using calculateSlope_spec[of "example_snapshot 0 None [example_bucket 20 100, example_bucket 50 99]"]
    by simp
qed

text \<open>
  The extractor never stores a falsy price, so in the \<open>prices\<close> object of a snapshot a
  price is unresolved exactly when no bucket supplies one.
\<close>

lemma obj_set_values: "set (map snd (obj_set ps k v)) \<subseteq> insert v (set (map snd ps))"
  by (induction ps k v rule: obj_set.induct) auto

lemma build_prices_nonzero_aux:
  "0 \<notin> set (map snd ps) \<Longrightarrow>
   0 \<notin> set (map snd (foldl (\<lambda>ps b. case bucket_price b of None \<Rightarrow> ps
                                  | Some p \<Rightarrow> obj_set ps (bucket_bp b) p) ps bs))"
proof (induction bs arbitrary: ps)
  case Nil
  then show ?case by simp
next
  case (Cons b bs)
  show ?case
  proof (cases "bucket_price b")
    case None
    then show ?thesis using Cons by simp
  next
    case (Some p)
    then have "p \<noteq> 0"
      by (auto simp: bucket_price_def Let_def truthy_def split: if_splits option.splits)
    then have "0 \<notin> set (map snd (obj_set ps (bucket_bp b) p))"
      using Cons.prems obj_set_values[of ps "bucket_bp b" p] by auto
    then show ?thesis using Cons.IH Some by simp
  qed
qed

lemma build_prices_nonzero: "obj_get (build_prices bs) k \<noteq> Some 0"
proof
  assume "obj_get (build_prices bs) k = Some 0"
  then have "0 \<in> set (map snd (build_prices bs))"
    by (auto simp: obj_get_def dest!: map_of_SomeD intro: rev_image_eqI)
  then show False using build_prices_nonzero_aux[of "[]" bs] by (simp add: build_prices_def)
qed

lemma extracted_prices_nonzero:
  "extractPoolData now m = Some pd \<Longrightarrow> obj_get (prices pd) k \<noteq> Some 0"
  using build_prices_nonzero by (auto simp: extractPoolData_def Let_def split: if_splits)

lemma price_at_nonzero: "price_at (build_prices bs) r \<noteq> Some 0"
  using build_prices_nonzero[of bs] by (simp add: price_at_def split: option.splits)

lemma extracted_prices: "extractPoolData now m = Some pd \<Longrightarrow> prices pd = build_prices (slippageBuckets pd)"
  by (auto simp: extractPoolData_def Let_def split: if_splits)

text \<open>
  So for a snapshot made by \<open>extractPoolData\<close> the slope is null exactly when a reference
  price is absent, and the guard on a zero 10bp price never fires.
\<close>

lemma calculateSlope_extracted:
  assumes "extractPoolData now m = Some pd"
  shows "calculateSlope pd =
           (case price_at (prices pd) 10 of
              None \<Rightarrow> None
            | Some p10 \<Rightarrow> (case price_at (prices pd) 100 of
                             None \<Rightarrow> None
                           | Some p100 \<Rightarrow> Some ((p100 - p10) / p10)))"
proof -
  have a: "price_at (prices pd) 10 \<noteq> Some 0" and b: "price_at (prices pd) 100 \<noteq> Some 0"
    using price_at_nonzero extracted_prices[OF assms] by simp_all
  show ?thesis
    unfolding calculateSlope_price_at using a b
    by (cases "price_at (prices pd) 10"; cases "price_at (prices pd) 100")
       (simp_all add: truthy_def)
qed

subsection \<open>Delta slope\<close>

lemma calculateDeltaSlope_history:
  "calculateDeltaSlope st p s =
     (if history_of st p = [] then None else Some (s - sr_slope (last (history_of st p))))"
  by (simp add: calculateDeltaSlope_def history_of_def Let_def)

lemma generateSignal_total: "\<exists>g. generateSignal (Some c) sv dv = Inr g"
  by (simp add: generateSignal_def Let_def split: option.splits)

lemma processPoolData_slope:
  assumes "extractPoolData n1 m = Some pd" "calculateSlope pd = Some s" "config st = Some c"
  shows "\<exists>g. processPoolData st n1 n2 m =
           (Inr (Some \<lparr>res_poolData = pd, res_slope = Some s,
                       res_deltaSlope = calculateDeltaSlope st (poolAddress pd) s,
                       res_signal = g\<rparr>),
            updateHistory n2 pd s st)"
proof -
  have cfg: "config (updateHistory n2 pd s st) = Some c"
    using assms(3) by (simp add: updateHistory_def Let_def)
  obtain g where g: "generateSignal (Some c) (Some s) (calculateDeltaSlope st (poolAddress pd) s) = Inr g"
    using generateSignal_total by blast
  show ?thesis using assms(1,2) cfg g by (simp add: processPoolData_def Let_def)
qed

lemma processPoolData_first:
  assumes "extractPoolData n1 m = Some pd" "calculateSlope pd = Some s"
    "history_of st (poolAddress pd) = []"
  shows "processPoolData st n1 n2 m =
           (Inr (Some \<lparr>res_poolData = pd, res_slope = Some s, res_deltaSlope = None,
                       res_signal = None\<rparr>),
            updateHistory n2 pd s st)"
  using assms by (simp add: processPoolData_def Let_def calculateDeltaSlope_history generateSignal_def)

lemma updateHistory_last:
  "history_of (updateHistory now pd s st) (poolAddress pd) \<noteq> [] \<and>
   sr_slope (last (history_of (updateHistory now pd s st) (poolAddress pd))) = s"
proof -
  define pushed where "pushed = append_record now pd s (history_of st (poolAddress pd))"
  have l: "last pushed = \<lparr>sr_timestamp = (if truthy_jsnum (timestamp pd) then timestamp pd else Num now),
                            sr_slope = s,
                            sr_deltaSlope = (if history_of st (poolAddress pd) = [] then 0
                               else s - sr_slope (last (history_of st (poolAddress pd))))\<rparr>"
    by (simp add: pushed_def append_record_def)
  have ne: "pushed \<noteq> []" by (simp add: pushed_def append_record_def)
  have h: "history_of (updateHistory now pd s st) (poolAddress pd)
             = (if length pushed > maxHistorySize then tl pushed else pushed)"
    by (simp add: updateHistory_history pushed_def Let_def)
  show ?thesis
  proof (cases "length pushed > maxHistorySize")
    case True
    then have "tl pushed \<noteq> []" by (cases pushed) (auto simp: maxHistorySize_def)
    then show ?thesis using True h l by (simp add: last_tl)
  next
    case False
    then show ?thesis using h l ne by simp
  qed
qed

text \<open>
  C5. \<open>calculateDeltaSlope\<close> returns null when the pool has no history record, and
  otherwise the current slope minus the slope of the last record. \<open>processPoolData\<close>
  computes it on the history as it is before the new record is appended: it returns the
  delta of the state it was called in, and leaves the state \<open>updateHistory\<close> gives.
  For a pool with no history, the first observation has delta slope null, and a second
  observation with slopes \<open>s1\<close> then \<open>s2\<close> has delta slope \<open>s2 - s1\<close>.
\<close>

theorem deltaSlope_spec:
  "calculateDeltaSlope st p s =
     (if history_of st p = [] then None else Some (s - sr_slope (last (history_of st p)))) \<and>
   (config st = Some c \<and> extractPoolData a1 m1 = Some pd1 \<and> calculateSlope pd1 = Some s1 \<longrightarrow>
      (\<exists>g. processPoolData st a1 a2 m1 =
         (Inr (Some \<lparr>res_poolData = pd1, res_slope = Some s1,
                     res_deltaSlope = calculateDeltaSlope st (poolAddress pd1) s1,
                     res_signal = g\<rparr>),
          updateHistory a2 pd1 s1 st))) \<and>
   (config st = Some c \<and> history_of st p = [] \<and>
    extractPoolData a1 m1 = Some pd1 \<and> poolAddress pd1 = p \<and> calculateSlope pd1 = Some s1 \<and>
    extractPoolData b1 m2 = Some pd2 \<and> poolAddress pd2 = p \<and> calculateSlope pd2 = Some s2 \<longrightarrow>
      (\<exists>r1 r2.
         fst (processPoolData st a1 a2 m1) = Inr (Some r1) \<and>
         res_slope r1 = Some s1 \<and> res_deltaSlope r1 = None \<and>
         fst (processPoolData (snd (processPoolData st a1 a2 m1)) b1 b2 m2) = Inr (Some r2) \<and>
         res_slope r2 = Some s2 \<and> res_deltaSlope r2 = Some (s2 - s1)))"
proof (intro conjI impI)
  show "calculateDeltaSlope st p s =
     (if history_of st p = [] then None else Some (s - sr_slope (last (history_of st p))))"
    by (rule calculateDeltaSlope_history)
next
  assume "config st = Some c \<and> extractPoolData a1 m1 = Some pd1 \<and> calculateSlope pd1 = Some s1"
  then show "\<exists>g. processPoolData st a1 a2 m1 =
         (Inr (Some \<lparr>res_poolData = pd1, res_slope = Some s1,
                     res_deltaSlope = calculateDeltaSlope st (poolAddress pd1) s1,
                     res_signal = g\<rparr>),
          updateHistory a2 pd1 s1 st)"
    using processPoolData_slope[of a1 m1 pd1 s1 st c a2] by simp
next
  assume a: "config st = Some c \<and> history_of st p = [] \<and>
    extractPoolData a1 m1 = Some pd1 \<and> poolAddress pd1 = p \<and> calculateSlope pd1 = Some s1 \<and>
    extractPoolData b1 m2 = Some pd2 \<and> poolAddress pd2 = p \<and> calculateSlope pd2 = Some s2"
  define st1 where "st1 = updateHistory a2 pd1 s1 st"
  have first: "processPoolData st a1 a2 m1 =
           (Inr (Some \<lparr>res_poolData = pd1, res_slope = Some s1, res_deltaSlope = None,
                       res_signal = None\<rparr>), st1)"
    unfolding st1_def using a by (intro processPoolData_first) simp_all
  have cfg1: "config st1 = Some c" using a by (simp add: st1_def updateHistory_def Let_def)
  have d: "calculateDeltaSlope st1 (poolAddress pd2) s2 = Some (s2 - s1)"
    using a updateHistory_last[of a2 pd1 s1 st]
    by (simp add: calculateDeltaSlope_history st1_def)
  obtain g where second: "processPoolData st1 b1 b2 m2 =
           (Inr (Some \<lparr>res_poolData = pd2, res_slope = Some s2,
                       res_deltaSlope = calculateDeltaSlope st1 (poolAddress pd2) s2,
                       res_signal = g\<rparr>),
            updateHistory b2 pd2 s2 st1)"
    using processPoolData_slope[of b1 m2 pd2 s2 st1 c b2] a cfg1 by blast
  show "\<exists>r1 r2.
         fst (processPoolData st a1 a2 m1) = Inr (Some r1) \<and>
         res_slope r1 = Some s1 \<and> res_deltaSlope r1 = None \<and>
         fst (processPoolData (snd (processPoolData st a1 a2 m1)) b1 b2 m2) = Inr (Some r2) \<and>
         res_slope r2 = Some s2 \<and> res_deltaSlope r2 = Some (s2 - s1)"
    using first second d by simp
qed

theorem deltaSlope_spec_witness:
  "\<exists>r1 r2.
     fst (processPoolData (initializeStrategy example_config engine_init) 1 2
            (example_message None [example_bucket 10 100, example_bucket 100 99])) = Inr (Some r1) \<and>
     res_slope r1 = Some (- 1 / 100) \<and> res_deltaSlope r1 = None \<and>
     fst (processPoolData
            (snd (processPoolData (initializeStrategy example_config engine_init) 1 2
                    (example_message None [example_bucket 10 100, example_bucket 100 99])))
            3 4 (example_message None [example_bucket 10 100, example_bucket 100 98])) = Inr (Some r2) \<and>
     res_slope r2 = Some (- 2 / 100) \<and> res_deltaSlope r2 = Some (- 2 / 100 - (- 1 / 100))"
proof -
  define m1 where "m1 = example_message None [example_bucket 10 100, example_bucket 100 99]"
  define m2 where "m2 = example_message None [example_bucket 10 100, example_bucket 100 98]"
  define st0 where "st0 = initializeStrategy example_config engine_init"
  define pd1 where "pd1 = example_snapshot 1 None [example_bucket 10 100, example_bucket 100 99]"
  define pd2 where "pd2 = example_snapshot 3 None [example_bucket 10 100, example_bucket 100 98]"
  have c: "config st0 = Some example_config"
    by (simp add: st0_def initializeStrategy_def)
  have h: "history_of st0 ''0xpool'' = []"
    by (simp add: st0_def initializeStrategy_def engine_init_def history_of_def)
  have e1: "extractPoolData 1 m1 = Some pd1" by (simp add: m1_def pd1_def extract_example)
  have e2: "extractPoolData 3 m2 = Some pd2" by (simp add: m2_def pd2_def extract_example)
  have p1: "poolAddress pd1 = ''0xpool''" by (simp add: pd1_def example_snapshot_def)
  have p2: "poolAddress pd2 = ''0xpool''" by (simp add: pd2_def example_snapshot_def)
  have s1: "calculateSlope pd1 = Some (- 1 / 100)"
    by (simp add: pd1_def calculateSlope_def example_snapshot_def example_prices obj_get_def
          js_or_def truthy_def Let_def)
  have s2: "calculateSlope pd2 = Some (- 2 / 100)"
    by (simp add: pd2_def calculateSlope_def example_snapshot_def example_prices obj_get_def
          js_or_def truthy_def Let_def)
  show ?thesis
    using deltaSlope_spec[where st = st0 and p = "''0xpool''" and c = example_config
        and ?a1.0 = 1 and ?m1.0 = m1 and ?pd1.0 = pd1 and ?s1.0 = "- 1 / 100" and ?a2.0 = 2
        and ?b1.0 = 3 and ?m2.0 = m2 and ?pd2.0 = pd2 and ?s2.0 = "- 2 / 100" and ?b2.0 = 4]
      c h e1 e2 p1 p2 s1 s2
    unfolding m1_def[symmetric] m2_def[symmetric] st0_def[symmetric]
    by blast
qed

section \<open>Properties of the trade simulator\<close>

subsection \<open>Binary64 products\<close>

lemma exponent_from_numeral:
  "exponent_from (numeral k) e x =
     (if 2 \<le> x then exponent_from (pred_numeral k) (e + 1) (x / 2)
      else if x < 1 then exponent_from (pred_numeral k) (e - 1) (x * 2)
      else e)"
  by (simp add: numeral_eq_Suc)

lemma double_mul_percent: "double_mul (1 / 100) 10000 = 100"
  by (simp add: double_mul_def to_double_def binary_exponent_def exponent_from_numeral pow2_def
        round_half_even_def Let_def)

lemma double_mul_20bp: "double_mul (1 / 500) 10000 = 20"
  by (simp add: double_mul_def to_double_def binary_exponent_def exponent_from_numeral pow2_def
        round_half_even_def Let_def)

lemma double_mul_50bp: "double_mul (1 / 200) 10000 = 50"
  by (simp add: double_mul_def to_double_def binary_exponent_def exponent_from_numeral pow2_def
        round_half_even_def Let_def)

text \<open>
  The binary64 number nearest to 0.00035 is \<open>6456360425798343 / 2^64\<close>. Its exact
  product with 10000 lies below 3.5 and rounds to 3; the machine's product is 3.5, which
  \<open>Math.round\<close> takes to 4.
\<close>

lemma double_mul_tie:
  "double_mul (6456360425798343 / 18446744073709551616) 10000 = 7 / 2 \<and>
   Math_round (double_mul (6456360425798343 / 18446744073709551616) 10000) = 4 \<and>
   Math_round (6456360425798343 / 18446744073709551616 * 10000) = 3"
  by (simp add: double_mul_def to_double_def binary_exponent_def exponent_from_numeral pow2_def
        round_half_even_def Let_def Math_round_def)

subsection \<open>Execution price\<close>

lemma Math_round_round: "Math_round x = round x"
  by (simp add: Math_round_def round_def)

lemma flat_lookup:
  "(if length (obj_keys ps) > 0
    then (let r = js_or (obj_get ps k) (obj_get ps k) in if truthy r then r else None)
    else None) =
   (case obj_get ps k of None \<Rightarrow> None | Some v \<Rightarrow> if v = 0 then None else Some v)"
proof (cases ps)
  case Nil
  then show ?thesis by (simp add: obj_keys_def obj_get_def)
next
  case (Cons p rest)
  then show ?thesis
    by (simp add: obj_keys_def js_or_same Let_def truthy_def split: option.splits)
qed

lemma bucket_bp_spec: "bucket_bp b = basis_points_of b"
  by (simp add: bucket_bp_def basis_points_of_def js_or_def truthy_def Let_def split: option.splits)

lemma bucket_price_spec: "bucket_price b = price_of b"
  by (simp add: bucket_price_def price_of_def js_or_def truthy_def Let_def split: option.splits)

lemma closest_bucket_first:
  "find (\<lambda>b. \<bar>basis_points_of b - bp\<bar>
              = Min ((\<lambda>b. \<bar>basis_points_of b - bp\<bar>) ` set (b0 # rest))) (b0 # rest)
     = Some (foldl (closer_bucket bp) b0 rest)"
  by (rule foldl_first_min) (simp add: closer_bucket_def bucket_bp_spec Let_def)

text \<open>
  C6. \<open>getExecutionPrice\<close> converts the slippage fraction to basis points by rounding
  \<open>fraction * 10000\<close>, the product as the machine computes it, to the nearest integer;
  with a bucket table it returns the price of the bucket whose basis points match exactly,
  otherwise the price of the bucket at minimal absolute distance, the earliest in table
  order on a tie; with an empty table it looks the basis points up in the flat map; it
  returns null when no price is found.
\<close>

theorem getExecutionPrice_spec:
  "getExecutionPrice pd amount_v fraction dir = exec_price_spec pd fraction"
proof (cases "slippageBuckets pd")
  case Nil
  then show ?thesis
    using flat_lookup[of "prices pd" "round (double_mul fraction 10000)"]
    by (simp add: getExecutionPrice_def exec_price_spec_def Let_def Math_round_round)
next
  case (Cons b0 rest)
  show ?thesis
  proof (cases "find (\<lambda>b. basis_points_of b = round (double_mul fraction 10000)) (b0 # rest)")
    case None
    then show ?thesis
      using closest_bucket_first[of "round (double_mul fraction 10000)" b0 rest] Cons
      by (simp add: getExecutionPrice_def exec_price_spec_def Let_def Math_round_round
            bucket_bp_spec bucket_price_spec del: find.simps set_simps)
  next
    case (Some b)
    then show ?thesis using Cons
      by (simp add: getExecutionPrice_def exec_price_spec_def Let_def Math_round_round
            bucket_bp_spec bucket_price_spec del: find.simps set_simps)
  qed
qed

text \<open>
  Four executions: an exact match on the lower-case spelling of a bucket whose upper-case
  price is zero, reached through the binary64 product of the number nearest 0.00035; a tie
  between the buckets at 10 and 30 basis points for a request of 20, won by the earlier;
  the flat map for an empty table; and no price at all.
\<close>

theorem getExecutionPrice_spec_witness:
  "getExecutionPrice
     (example_snapshot 0 None
        [example_bucket 3 30,
         \<lparr>SlippageBasisPoints = None, slippageBasisPoints = Some 4, Price = Some 0, price = Some 40\<rparr>])
     1 (6456360425798343 / 18446744073709551616) BUY = Some 40 \<and>
   exec_price_spec
     (example_snapshot 0 None
        [example_bucket 3 30,
         \<lparr>SlippageBasisPoints = None, slippageBasisPoints = Some 4, Price = Some 0, price = Some 40\<rparr>])
     (6456360425798343 / 18446744073709551616) = Some 40 \<and>
   getExecutionPrice (example_snapshot 0 None [example_bucket 10 1, example_bucket 30 2])
     1 (1 / 500) SELL = Some 1 \<and>
   exec_price_spec (example_snapshot 0 None [example_bucket 10 1, example_bucket 30 2])
     (1 / 500) = Some 1 \<and>
   getExecutionPrice ((example_snapshot 0 None [])\<lparr>prices := [(50, 7)]\<rparr>) 1 (1 / 200) BUY = Some 7 \<and>
   exec_price_spec ((example_snapshot 0 None [])\<lparr>prices := [(50, 7)]\<rparr>) (1 / 200) = Some 7 \<and>
   getExecutionPrice ((example_snapshot 0 None [])\<lparr>prices := [(50, 7)]\<rparr>) 1 (1 / 100) BUY = None \<and>
   exec_price_spec ((example_snapshot 0 None [])\<lparr>prices := [(50, 7)]\<rparr>) (1 / 100) = None"
proof -
  have a: "getExecutionPrice
     (example_snapshot 0 None
        [example_bucket 3 30,
         \<lparr>SlippageBasisPoints = None, slippageBasisPoints = Some 4, Price = Some 0, price = Some 40\<rparr>])
     1 (6456360425798343 / 18446744073709551616) BUY = Some 40"
    using double_mul_tie
    by (simp add: getExecutionPrice_def example_snapshot_def example_bucket_def bucket_bp_def
          bucket_price_def js_or_def truthy_def Let_def)
  have b: "getExecutionPrice (example_snapshot 0 None [example_bucket 10 1, example_bucket 30 2])
     1 (1 / 500) SELL = Some 1"
    by (simp add: getExecutionPrice_def example_snapshot_def example_bucket_def bucket_bp_def
          bucket_price_def closer_bucket_def js_or_def truthy_def Let_def double_mul_20bp
          Math_round_def)
  have c: "getExecutionPrice ((example_snapshot 0 None [])\<lparr>prices := [(50, 7)]\<rparr>) 1 (1 / 200) BUY
             = Some 7"
    by (simp add: getExecutionPrice_def example_snapshot_def obj_keys_def obj_get_def js_or_def
          truthy_def Let_def double_mul_50bp Math_round_def)
  have d: "getExecutionPrice ((example_snapshot 0 None [])\<lparr>prices := [(50, 7)]\<rparr>) 1 (1 / 100) BUY
             = None"
    by (simp add: getExecutionPrice_def example_snapshot_def obj_keys_def obj_get_def js_or_def
          truthy_def Let_def double_mul_percent Math_round_def)
  show ?thesis
    using a b c d
      getExecutionPrice_spec[of "example_snapshot 0 None
        [example_bucket 3 30,
         \<lparr>SlippageBasisPoints = None, slippageBasisPoints = Some 4, Price = Some 0, price = Some 40\<rparr>]"
        1 "6456360425798343 / 18446744073709551616" BUY]
      getExecutionPrice_spec[of "example_snapshot 0 None [example_bucket 10 1, example_bucket 30 2]"
        1 "1 / 500" SELL]
      getExecutionPrice_spec[of "(example_snapshot 0 None [])\<lparr>prices := [(50, 7)]\<rparr>" 1 "1 / 200" BUY]
      getExecutionPrice_spec[of "(example_snapshot 0 None [])\<lparr>prices := [(50, 7)]\<rparr>" 1 "1 / 100" BUY]
    by simp
qed

subsection \<open>Opening and closing\<close>

lemma executeBuy_success:
  assumes "getExecutionPrice pd amount_v slippage BUY = Some p" "p \<noteq> 0"
  shows "executeBuy l n1 n2 pd amount_v slippage g =
           (Inr (length (store l)),
            l\<lparr>store := store l @ [opened_trade l n1 n2 pd amount_v slippage g p],
              trades := trades l @ [length (store l)],
              openPosition := Some (length (store l)),
              tradeCounter := tradeCounter l + 1\<rparr>)"
  using assms by (simp add: executeBuy_def generateTradeId_def opened_trade_def Let_def)

lemma executeBuy_cases:
  "(\<exists>p. getExecutionPrice pd amount_v slippage BUY = Some p \<and> p \<noteq> 0 \<and>
        executeBuy l n1 n2 pd amount_v slippage g =
           (Inr (length (store l)),
            l\<lparr>store := store l @ [opened_trade l n1 n2 pd amount_v slippage g p],
              trades := trades l @ [length (store l)],
              openPosition := Some (length (store l)),
              tradeCounter := tradeCounter l + 1\<rparr>)) \<or>
   executeBuy l n1 n2 pd amount_v slippage g =
     (Inl (Error ''Unable to determine execution price for BUY''), l)"
proof (cases "getExecutionPrice pd amount_v slippage BUY")
  case None
  then show ?thesis by (simp add: executeBuy_def)
next
  case (Some p)
  show ?thesis
  proof (cases "p = 0")
    case True
    then show ?thesis using Some by (simp add: executeBuy_def)
  next
    case False
    then show ?thesis using Some executeBuy_success[OF Some False] by simp
  qed
qed

lemma executeSell_none:
  "openPosition l = None \<Longrightarrow> executeSell l n1 n2 pd amount_v slippage g = (Inr None, l)"
  by (simp add: executeSell_def)

lemma executeSell_success:
  assumes "openPosition l = Some a" "getExecutionPrice pd amount_v slippage SELL = Some p" "p \<noteq> 0"
    "a < length (store l)"
  shows "executeSell l n1 n2 pd amount_v slippage g =
           (Inr (Some ((store l ! a)\<lparr>exitPrice := Some p, exitTimestamp := Some n2\<rparr>)),
            l\<lparr>store := (store l)[a := (store l ! a)\<lparr>exitPrice := Some p, exitTimestamp := Some n1\<rparr>],
              openPosition := None\<rparr>)"
  using assms by (simp add: executeSell_def Let_def)

lemma executeSell_cases:
  "executeSell l n1 n2 pd amount_v slippage g = (Inr None, l) \<or>
   executeSell l n1 n2 pd amount_v slippage g =
     (Inl (Error ''Unable to determine execution price for SELL''), l) \<or>
   (\<exists>a p. openPosition l = Some a \<and> getExecutionPrice pd amount_v slippage SELL = Some p \<and> p \<noteq> 0 \<and>
      snd (executeSell l n1 n2 pd amount_v slippage g) =
        l\<lparr>store := (store l)[a := (store l ! a)\<lparr>exitPrice := Some p, exitTimestamp := Some n1\<rparr>],
          openPosition := None\<rparr>)"
  by (auto simp: executeSell_def Let_def split: option.splits)

subsection \<open>The ledger invariant\<close>

lemma ledger_inv_init: "ledger_inv ledger_init"
  by (simp add: ledger_inv_def ledger_init_def)

lemma ledger_inv_buy:
  assumes "ledger_inv l"
  shows "ledger_inv (snd (executeBuy l n1 n2 pd amount_v slippage g))"
  using executeBuy_cases[of pd amount_v slippage l n1 n2 g] assms
  by (auto simp: ledger_inv_def opened_trade_def nth_append less_Suc_eq split: option.splits)

lemma ledger_inv_sell:
  assumes "ledger_inv l"
  shows "ledger_inv (snd (executeSell l n1 n2 pd amount_v slippage g))"
  using executeSell_cases[of l n1 n2 pd amount_v slippage g] assms
  by (auto simp: ledger_inv_def split: option.splits)

lemma ledger_inv_reset: "ledger_inv (resetTrades l)"
  by (simp add: ledger_inv_def resetTrades_def)

lemma ledger_inv_apply: "ledger_inv l \<Longrightarrow> ledger_inv (apply_op l op)"
  by (cases op) (simp_all add: ledger_inv_buy ledger_inv_sell ledger_inv_reset)

lemma ledger_inv_run: "ledger_inv l \<Longrightarrow> ledger_inv (run_ops l ops)"
  unfolding run_ops_def by (induction ops arbitrary: l) (simp_all add: ledger_inv_apply)

lemma ledger_inv_reachable: "ledger_inv (run_ops ledger_init ops)"
  by (rule ledger_inv_run[OF ledger_inv_init])

lemma executeBuy_failure:
  "fst (executeBuy l n1 n2 pd amount_v slippage g) = Inl e \<Longrightarrow>
   snd (executeBuy l n1 n2 pd amount_v slippage g) = l"
  using executeBuy_cases[of pd amount_v slippage l n1 n2 g] by auto

lemma executeSell_failure:
  "fst (executeSell l n1 n2 pd amount_v slippage g) = Inl e \<Longrightarrow>
   snd (executeSell l n1 n2 pd amount_v slippage g) = l"
  by (auto simp: executeSell_def Let_def split: option.splits if_splits)

text \<open>
  C10. After any sequence of \<open>executeBuy\<close>, \<open>executeSell\<close> and \<open>resetTrades\<close> from the
  initial ledger, an open-position reference designates a trade that is an element of
  \<open>trades\<close> and has no exit price. An \<open>executeBuy\<close> or \<open>executeSell\<close> that throws leaves
  the ledger, and with it the reference, as it was.
\<close>

theorem open_position_invariant:
  "(openPosition (run_ops ledger_init ops) = Some a \<longrightarrow>
      a \<in> set (trades (run_ops ledger_init ops)) \<and>
      a < length (store (run_ops ledger_init ops)) \<and>
      exitPrice (store (run_ops ledger_init ops) ! a) = None) \<and>
   (fst (executeBuy l n1 n2 pd amount_v slippage g) = Inl e \<longrightarrow>
      snd (executeBuy l n1 n2 pd amount_v slippage g) = l) \<and>
   (fst (executeSell l n1 n2 pd amount_v slippage g) = Inl e \<longrightarrow>
      snd (executeSell l n1 n2 pd amount_v slippage g) = l)"
  using ledger_inv_reachable[of ops] executeBuy_failure executeSell_failure
  by (auto simp: ledger_inv_def split: option.splits)

text \<open>
  C7. With no open-position reference, \<open>executeSell\<close> returns null without throwing and
  leaves the whole ledger as it was.
\<close>

theorem executeSell_no_position:
  "openPosition l = None \<Longrightarrow> executeSell l n1 n2 pd amount_v slippage g = (Inr None, l)"
  by (rule executeSell_none)

text \<open>
  C2. The open-position slot is global. A successful \<open>executeBuy\<close> on a ledger reached by
  any sequence of operations, for any snapshot, appends the new trade to \<open>trades\<close> and makes
  it the open-position reference; the new trade is a BUY with no exit price. The trade
  that was open before is still in \<open>trades\<close>, unchanged and with no exit price, whatever
  its pool.
\<close>

theorem executeBuy_global_slot:
  "fst (executeBuy (run_ops ledger_init ops) n1 n2 pd amount_v slippage g) = Inr a \<Longrightarrow>
   l = run_ops ledger_init ops \<Longrightarrow>
   l' = snd (executeBuy l n1 n2 pd amount_v slippage g) \<Longrightarrow>
   trades l' = trades l @ [a] \<and> a \<notin> set (trades l) \<and> openPosition l' = Some a \<and>
   a < length (store l') \<and> trade_type (store l' ! a) = BUY \<and> exitPrice (store l' ! a) = None \<and>
   trade_poolAddress (store l' ! a)
     = (if poolAddress pd \<noteq> [] then poolAddress pd else ''unknown'') \<and>
   (\<forall>b. openPosition l = Some b \<longrightarrow>
      b \<noteq> a \<and> b \<in> set (trades l') \<and> store l' ! b = store l ! b \<and>
      exitPrice (store l' ! b) = None)"
proof -
  assume ok: "fst (executeBuy (run_ops ledger_init ops) n1 n2 pd amount_v slippage g) = Inr a"
    and l: "l = run_ops ledger_init ops"
    and l': "l' = snd (executeBuy l n1 n2 pd amount_v slippage g)"
  have inv: "ledger_inv l" unfolding l by (rule ledger_inv_reachable)
  from executeBuy_cases[of pd amount_v slippage l n1 n2 g] ok l
  obtain p where p: "executeBuy l n1 n2 pd amount_v slippage g =
           (Inr (length (store l)),
            l\<lparr>store := store l @ [opened_trade l n1 n2 pd amount_v slippage g p],
              trades := trades l @ [length (store l)],
              openPosition := Some (length (store l)),
              tradeCounter := tradeCounter l + 1\<rparr>)"
    by auto
  have a: "a = length (store l)" using ok l p by simp
  have fresh: "a \<notin> set (trades l)" using inv a by (auto simp: ledger_inv_def)
  have old: "\<forall>b. openPosition l = Some b \<longrightarrow> b \<in> set (trades l) \<and> b < length (store l) \<and>
               exitPrice (store l ! b) = None"
    using inv by (auto simp: ledger_inv_def)
  show ?thesis
    using p a fresh old unfolding l'
    by (auto simp: opened_trade_def nth_append)
qed

subsection \<open>Example executions\<close>

lemma example_pool_price:
  "getExecutionPrice (example_pool addr 100 (numeral v)) amount_v (1 / 100) dir = Some (numeral v)"
  by (simp add: getExecutionPrice_def example_pool_def example_snapshot_def example_bucket_def
        double_mul_percent Math_round_def bucket_bp_def bucket_price_def js_or_def truthy_def
        Let_def)

lemma example_empty_price:
  "getExecutionPrice (example_snapshot 0 None []) amount_v slippage dir = None"
  by (simp add: getExecutionPrice_def example_snapshot_def build_prices_def obj_keys_def Let_def)

lemma example_buy:
  "executeBuy l n1 n2 (example_pool addr 100 (numeral v)) amount_v (1 / 100) g =
     (Inr (length (store l)),
      l\<lparr>store := store l @ [opened_trade l n1 n2 (example_pool addr 100 (numeral v)) amount_v
                                 (1 / 100) g (numeral v)],
        trades := trades l @ [length (store l)],
        openPosition := Some (length (store l)),
        tradeCounter := tradeCounter l + 1\<rparr>)"
  by (rule executeBuy_success[OF example_pool_price]) simp

theorem executeSell_no_position_witness:
  "executeSell ledger_init 1 2 (example_pool ''0xpool'' 100 105) 1 (1 / 100) ''A''
     = (Inr None, ledger_init)"
  using executeSell_no_position[of ledger_init 1 2 "example_pool ''0xpool'' 100 105" 1 "1 / 100" "''A''"]
  by (simp add: ledger_init_def)

theorem executeBuy_global_slot_witness:
  "trades (snd (executeBuy (run_ops ledger_init [OpBuy 1 2 (example_pool ''0xpoolX'' 100 100) 1 (1 / 100) ''A''])
                  3 4 (example_pool ''0xpoolY'' 100 101) 1 (1 / 100) ''A'')) = [0, 1] \<and>
   openPosition (snd (executeBuy (run_ops ledger_init [OpBuy 1 2 (example_pool ''0xpoolX'' 100 100) 1 (1 / 100) ''A''])
                  3 4 (example_pool ''0xpoolY'' 100 101) 1 (1 / 100) ''A'')) = Some 1 \<and>
   exitPrice (store (snd (executeBuy (run_ops ledger_init [OpBuy 1 2 (example_pool ''0xpoolX'' 100 100) 1 (1 / 100) ''A''])
                  3 4 (example_pool ''0xpoolY'' 100 101) 1 (1 / 100) ''A'')) ! 0) = None"
proof -
  define l where "l = run_ops ledger_init [OpBuy 1 2 (example_pool ''0xpoolX'' 100 100) 1 (1 / 100) ''A'']"
  define l' where "l' = snd (executeBuy l 3 4 (example_pool ''0xpoolY'' 100 101) 1 (1 / 100) ''A'')"
  have tr: "trades l = [0]" and op: "openPosition l = Some 0" and st: "length (store l) = 1"
    by (simp_all add: l_def run_ops_def example_buy ledger_init_def)
  have ok: "fst (executeBuy (run_ops ledger_init [OpBuy 1 2 (example_pool ''0xpoolX'' 100 100) 1 (1 / 100) ''A''])
                  3 4 (example_pool ''0xpoolY'' 100 101) 1 (1 / 100) ''A'') = Inr 1"
    using st by (simp add: example_buy l_def)
  note r = executeBuy_global_slot[OF ok l_def l'_def]
  have t1: "trades l' = [0, 1]" using r tr by simp
  have t2: "openPosition l' = Some 1" using r by simp
  have t3: "exitPrice (store l' ! 0) = None" using r op by blast
  show ?thesis using t1 t2 t3 unfolding l'_def l_def by blast
qed

theorem open_position_invariant_witness:
  "openPosition (run_ops ledger_init
      [OpBuy 1 2 (example_pool ''0xpoolX'' 100 100) 1 (1 / 100) ''A'',
       OpSell 3 4 (example_snapshot 0 None []) 1 (1 / 100) ''A'']) = Some 0 \<and>
   0 \<in> set (trades (run_ops ledger_init
      [OpBuy 1 2 (example_pool ''0xpoolX'' 100 100) 1 (1 / 100) ''A'',
       OpSell 3 4 (example_snapshot 0 None []) 1 (1 / 100) ''A''])) \<and>
   exitPrice (store (run_ops ledger_init
      [OpBuy 1 2 (example_pool ''0xpoolX'' 100 100) 1 (1 / 100) ''A'',
       OpSell 3 4 (example_snapshot 0 None []) 1 (1 / 100) ''A'']) ! 0) = None"
proof -
  have "openPosition (run_ops ledger_init
      [OpBuy 1 2 (example_pool ''0xpoolX'' 100 100) 1 (1 / 100) ''A'',
       OpSell 3 4 (example_snapshot 0 None []) 1 (1 / 100) ''A'']) = Some 0"
    by (simp add: run_ops_def example_buy executeSell_def example_empty_price ledger_init_def)
  then show ?thesis
    using open_position_invariant[of
      "[OpBuy 1 2 (example_pool ''0xpoolX'' 100 100) 1 (1 / 100) ''A'',
        OpSell 3 4 (example_snapshot 0 None []) 1 (1 / 100) ''A'']" 0]
    by simp
qed

subsection \<open>Profit and loss\<close>

lemma calculatePnL_cases:
  "calculatePnL t =
     (case exitPrice t of
        None \<Rightarrow> 0
      | Some x \<Rightarrow> if x = 0 then 0
                  else if trade_type t = BUY then (x - entryPrice t) * amount t
                  else (entryPrice t - x) * amount t)"
  by (simp add: calculatePnL_def truthy_def split: option.splits)

text \<open>No trade of a ledger holds a zero exit price: a trade is closed at a truthy price.\<close>

lemma exit_nonzero_buy:
  assumes "\<forall>t \<in> set (store l). exitPrice t \<noteq> Some 0"
  shows "\<forall>t \<in> set (store (snd (executeBuy l n1 n2 pd a s g))). exitPrice t \<noteq> Some 0"
proof (cases "getExecutionPrice pd a s BUY")
  case None
  then show ?thesis using assms by (simp add: executeBuy_def)
next
  case (Some p)
  show ?thesis
  proof (cases "p = 0")
    case True
    then show ?thesis using Some assms by (simp add: executeBuy_def)
  next
    case False
    show ?thesis
      unfolding executeBuy_success[OF Some False] using assms by (simp add: opened_trade_def)
  qed
qed

lemma exit_nonzero_sell:
  assumes "\<forall>t \<in> set (store l). exitPrice t \<noteq> Some 0"
  shows "\<forall>t \<in> set (store (snd (executeSell l n1 n2 pd a s g))). exitPrice t \<noteq> Some 0"
proof (cases "openPosition l")
  case None
  then show ?thesis using assms by (simp add: executeSell_def)
next
  case (Some b)
  show ?thesis
  proof (cases "getExecutionPrice pd a s SELL")
    case None
    then show ?thesis using Some assms by (simp add: executeSell_def)
  next
    case (Some p)
    show ?thesis
    proof (cases "p = 0")
      case True
      then show ?thesis using Some \<open>openPosition l = Some b\<close> assms by (simp add: executeSell_def)
    next
      case False
      have e: "store (snd (executeSell l n1 n2 pd a s g))
                 = (store l)[b := (store l ! b)\<lparr>exitPrice := Some p, exitTimestamp := Some n1\<rparr>]"
        using Some \<open>openPosition l = Some b\<close> False by (simp add: executeSell_def Let_def)
      show ?thesis
      proof
        fix t assume "t \<in> set (store (snd (executeSell l n1 n2 pd a s g)))"
        then have "t \<in> set ((store l)[b := (store l ! b)\<lparr>exitPrice := Some p, exitTimestamp := Some n1\<rparr>])"
          by (simp only: e)
        then have "t = (store l ! b)\<lparr>exitPrice := Some p, exitTimestamp := Some n1\<rparr> \<or> t \<in> set (store l)"
          using set_update_subset_insert[of "store l" b] by blast
        then show "exitPrice t \<noteq> Some 0" using assms False by auto
      qed
    qed
  qed
qed

lemma exit_nonzero_apply:
  assumes "\<forall>t \<in> set (store l). exitPrice t \<noteq> Some 0"
  shows "\<forall>t \<in> set (store (apply_op l op)). exitPrice t \<noteq> Some 0"
proof (cases op)
  case (OpBuy n1 n2 pd a s g)
  then show ?thesis using exit_nonzero_buy[OF assms] by simp
next
  case (OpSell n1 n2 pd a s g)
  then show ?thesis using exit_nonzero_sell[OF assms] by simp
next
  case OpReset
  then show ?thesis using assms by (simp add: resetTrades_def)
qed

lemma exit_nonzero_run:
  "\<forall>t \<in> set (store l). exitPrice t \<noteq> Some 0 \<Longrightarrow>
   \<forall>t \<in> set (store (run_ops l ops)). exitPrice t \<noteq> Some 0"
  unfolding run_ops_def
proof (induction ops arbitrary: l)
  case Nil
  then show ?case by simp
next
  case (Cons op ops)
  show ?case using Cons.IH[OF exit_nonzero_apply[OF Cons.prems, of op]] by simp
qed

lemma exit_nonzero_reachable:
  "t \<in> set (store (run_ops ledger_init ops)) \<Longrightarrow> exitPrice t \<noteq> Some 0"
  using exit_nonzero_run[of ledger_init ops] by (simp add: ledger_init_def)

lemma round_trip:
  assumes b: "getExecutionPrice pd1 1 sl1 BUY = Some 100"
    and s: "getExecutionPrice pd2 amount2 sl2 SELL = Some 105"
  shows "\<exists>a t'. trades (snd (executeSell (snd (executeBuy ledger_init n1 n2 pd1 1 sl1 g1))
                               n3 n4 pd2 amount2 sl2 g2)) = [a] \<and>
           a < length (store (snd (executeSell (snd (executeBuy ledger_init n1 n2 pd1 1 sl1 g1))
                               n3 n4 pd2 amount2 sl2 g2))) \<and>
           exitPrice (store (snd (executeSell (snd (executeBuy ledger_init n1 n2 pd1 1 sl1 g1))
                               n3 n4 pd2 amount2 sl2 g2)) ! a) = Some 105 \<and>
           calculatePnL (store (snd (executeSell (snd (executeBuy ledger_init n1 n2 pd1 1 sl1 g1))
                               n3 n4 pd2 amount2 sl2 g2)) ! a) = 5 \<and>
           openPosition (snd (executeSell (snd (executeBuy ledger_init n1 n2 pd1 1 sl1 g1))
                               n3 n4 pd2 amount2 sl2 g2)) = None \<and>
           fst (executeSell (snd (executeBuy ledger_init n1 n2 pd1 1 sl1 g1))
                               n3 n4 pd2 amount2 sl2 g2) = Inr (Some t') \<and>
           calculatePnL t' = 5"
proof -
  define l1 where "l1 = snd (executeBuy ledger_init n1 n2 pd1 1 sl1 g1)"
  have l1: "l1 = \<lparr>store = [opened_trade ledger_init n1 n2 pd1 1 sl1 g1 100], trades = [0],
                  openPosition = Some 0, tradeCounter = 1\<rparr>"
    unfolding l1_def using executeBuy_success[OF b, of ledger_init n1 n2 g1]
    by (simp add: ledger_init_def)
  have sell: "executeSell l1 n3 n4 pd2 amount2 sl2 g2 =
           (Inr (Some ((store l1 ! 0)\<lparr>exitPrice := Some 105, exitTimestamp := Some n4\<rparr>)),
            l1\<lparr>store := (store l1)[0 := (store l1 ! 0)\<lparr>exitPrice := Some 105, exitTimestamp := Some n3\<rparr>],
               openPosition := None\<rparr>)"
    by (rule executeSell_success[OF _ s]) (simp_all add: l1)
  show ?thesis
    unfolding l1_def[symmetric] sell
    by (simp add: l1 opened_trade_def calculatePnL_cases)
qed

text \<open>
  C8. \<open>calculatePnL\<close> returns 0 for a trade with no resolved exit price (none, or zero,
  which the falsy test takes for none and which no trade of a ledger holds); for a trade
  opened by a BUY it returns \<open>(exitPrice - entryPrice) * amount\<close>, and for one opened by a
  SELL \<open>(entryPrice - exitPrice) * amount\<close>. From the empty ledger, an \<open>executeBuy\<close> of
  amount 1 at a price resolving to 100 followed by an \<open>executeSell\<close> at a price resolving to
  105 leaves exactly one trade in the ledger; it is closed and its pnl is 5, as is the pnl
  of the trade returned.
\<close>

theorem calculatePnL_spec:
  "(unresolved (exitPrice t) \<longrightarrow> calculatePnL t = 0) \<and>
   (exitPrice t = Some x \<and> x \<noteq> 0 \<and> trade_type t = BUY \<longrightarrow>
      calculatePnL t = (x - entryPrice t) * amount t) \<and>
   (exitPrice t = Some x \<and> x \<noteq> 0 \<and> trade_type t = SELL \<longrightarrow>
      calculatePnL t = (entryPrice t - x) * amount t) \<and>
   (getExecutionPrice pd1 1 sl1 BUY = Some 100 \<and>
    getExecutionPrice pd2 amount2 sl2 SELL = Some 105 \<longrightarrow>
      (\<exists>a t'. trades (snd (executeSell (snd (executeBuy ledger_init n1 n2 pd1 1 sl1 g1))
                               n3 n4 pd2 amount2 sl2 g2)) = [a] \<and>
           a < length (store (snd (executeSell (snd (executeBuy ledger_init n1 n2 pd1 1 sl1 g1))
                               n3 n4 pd2 amount2 sl2 g2))) \<and>
           exitPrice (store (snd (executeSell (snd (executeBuy ledger_init n1 n2 pd1 1 sl1 g1))
                               n3 n4 pd2 amount2 sl2 g2)) ! a) = Some 105 \<and>
           calculatePnL (store (snd (executeSell (snd (executeBuy ledger_init n1 n2 pd1 1 sl1 g1))
                               n3 n4 pd2 amount2 sl2 g2)) ! a) = 5 \<and>
           openPosition (snd (executeSell (snd (executeBuy ledger_init n1 n2 pd1 1 sl1 g1))
                               n3 n4 pd2 amount2 sl2 g2)) = None \<and>
           fst (executeSell (snd (executeBuy ledger_init n1 n2 pd1 1 sl1 g1))
                               n3 n4 pd2 amount2 sl2 g2) = Inr (Some t') \<and>
           calculatePnL t' = 5))"
proof (intro conjI impI)
  assume "unresolved (exitPrice t)"
  then show "calculatePnL t = 0"
    by (simp add: calculatePnL_cases unresolved_def split: option.splits)
next
  assume "exitPrice t = Some x \<and> x \<noteq> 0 \<and> trade_type t = BUY"
  then show "calculatePnL t = (x - entryPrice t) * amount t"
    by (simp add: calculatePnL_cases)
next
  assume "exitPrice t = Some x \<and> x \<noteq> 0 \<and> trade_type t = SELL"
  then show "calculatePnL t = (entryPrice t - x) * amount t"
    by (simp add: calculatePnL_cases)
next
  assume "getExecutionPrice pd1 1 sl1 BUY = Some 100 \<and>
    getExecutionPrice pd2 amount2 sl2 SELL = Some 105"
  then show "\<exists>a t'. trades (snd (executeSell (snd (executeBuy ledger_init n1 n2 pd1 1 sl1 g1))
                               n3 n4 pd2 amount2 sl2 g2)) = [a] \<and>
           a < length (store (snd (executeSell (snd (executeBuy ledger_init n1 n2 pd1 1 sl1 g1))
                               n3 n4 pd2 amount2 sl2 g2))) \<and>
           exitPrice (store (snd (executeSell (snd (executeBuy ledger_init n1 n2 pd1 1 sl1 g1))
                               n3 n4 pd2 amount2 sl2 g2)) ! a) = Some 105 \<and>
           calculatePnL (store (snd (executeSell (snd (executeBuy ledger_init n1 n2 pd1 1 sl1 g1))
                               n3 n4 pd2 amount2 sl2 g2)) ! a) = 5 \<and>
           openPosition (snd (executeSell (snd (executeBuy ledger_init n1 n2 pd1 1 sl1 g1))
                               n3 n4 pd2 amount2 sl2 g2)) = None \<and>
           fst (executeSell (snd (executeBuy ledger_init n1 n2 pd1 1 sl1 g1))
                               n3 n4 pd2 amount2 sl2 g2) = Inr (Some t') \<and>
           calculatePnL t' = 5"
    using round_trip[of pd1 sl1 pd2 amount2 sl2 n1 n2 g1 n3 n4 g2] by blast
qed

theorem calculatePnL_spec_witness:
  "\<exists>a t'. trades (snd (executeSell (snd (executeBuy ledger_init 1 2 (example_pool ''0xpool'' 100 100) 1 (1 / 100) ''A''))
                               3 4 (example_pool ''0xpool'' 100 105) 1 (1 / 100) ''A'')) = [a] \<and>
           exitPrice (store (snd (executeSell (snd (executeBuy ledger_init 1 2 (example_pool ''0xpool'' 100 100) 1 (1 / 100) ''A''))
                               3 4 (example_pool ''0xpool'' 100 105) 1 (1 / 100) ''A'')) ! a) = Some 105 \<and>
           calculatePnL (store (snd (executeSell (snd (executeBuy ledger_init 1 2 (example_pool ''0xpool'' 100 100) 1 (1 / 100) ''A''))
                               3 4 (example_pool ''0xpool'' 100 105) 1 (1 / 100) ''A'')) ! a) = 5 \<and>
           fst (executeSell (snd (executeBuy ledger_init 1 2 (example_pool ''0xpool'' 100 100) 1 (1 / 100) ''A''))
                               3 4 (example_pool ''0xpool'' 100 105) 1 (1 / 100) ''A'') = Inr (Some t') \<and>
           calculatePnL t' = 5"
proof -
  have b: "getExecutionPrice (example_pool ''0xpool'' 100 100) 1 (1 / 100) BUY = Some 100"
    by (rule example_pool_price)
  have s: "getExecutionPrice (example_pool ''0xpool'' 100 105) 1 (1 / 100) SELL = Some 105"
    by (rule example_pool_price)
  show ?thesis
    using calculatePnL_spec[where ?pd1.0 = "example_pool ''0xpool'' 100 100" and ?sl1.0 = "1 / 100"
        and ?pd2.0 = "example_pool ''0xpool'' 100 105" and ?amount2.0 = 1 and ?sl2.0 = "1 / 100"
        and ?n1.0 = 1 and ?n2.0 = 2 and ?g1.0 = "''A''" and ?n3.0 = 3 and ?n4.0 = 4 and ?g2.0 = "''A''"]
      b s
    by blast
qed

end
